theory Spec2Isabelle
  imports Main
begin

section \<open>The linter (src/src/linter.ts)\<close>

subsection \<open>Failures, fixes and configuration\<close>

text \<open>
  \<^verbatim>\<open>ts.TextRange\<close>: the pair \<^verbatim>\<open>{pos, end}\<close>. Positions are JavaScript numbers; the
  model takes them as integers.
\<close>

record textRange =
  pos :: int
  endPos :: int

text \<open>\<^verbatim>\<open>Replacement\<close> is \<^verbatim>\<open>{start, end, text}\<close>; \<^verbatim>\<open>Fix\<close> is \<^verbatim>\<open>{replacements}\<close>.\<close>

record replacement =
  repStart :: int
  repEnd :: int
  repText :: string

record fixRecord =
  replacements :: "replacement list"

text \<open>The optional last argument of \<^verbatim>\<open>addFailure\<close>: \<^verbatim>\<open>fix?: Replacement | Replacement[]\<close>.\<close>

datatype fixArgument = NoFix | SingleReplacement replacement | ReplacementArray "replacement list"

datatype severity = Error | Warning | Off

record failurePosition =
  position :: int
  line :: int
  character :: int

record failure =
  failureRuleName :: string
  failureSeverity :: severity
  message :: string
  failureStart :: failurePosition
  failureEnd :: failurePosition
  failureFix :: "fixRecord option"

text \<open>\<^verbatim>\<open>ts.TextChangeRange\<close>: \<^verbatim>\<open>{span: {start, length}, newLength}\<close>.\<close>

record textChangeRange =
  spanStart :: int
  spanLength :: int
  newLength :: int

text \<open>
  What a rule does when the linter calls \<^verbatim>\<open>container.resolve(ctor).apply()\<close>: a sequence of
  calls on the injected \<^verbatim>\<open>RuleContext\<close>. \<^verbatim>\<open>isDisabled\<close> returns a value to the rule, so
  what follows it may depend on the answer. \<open>'f\<close> is \<^verbatim>\<open>ts.SourceFile\<close>.
\<close>

record 'f reportedNode =
  getStart :: "'f \<Rightarrow> int"
  nodeEnd :: int

datatype 'f ruleRun =
    Finished
  | AddFailure int int string fixArgument "'f ruleRun"
  | AddFailureAt int int string fixArgument "'f ruleRun"
  | AddFailureAtNode "'f reportedNode" string fixArgument "'f ruleRun"
  | IsDisabled textRange "bool \<Rightarrow> 'f ruleRun"

text \<open>
  \<^verbatim>\<open>RuleConstructor\<close>: the static members the linter reads, and the behaviour of an
  instance. \<open>'p\<close> is \<^verbatim>\<open>ts.Program\<close>, \<open>'o\<close> the rule options, \<open>'s\<close> the global settings.
\<close>

record ('f, 'p, 'o, 's) ruleConstructor =
  requiresTypeInformation :: bool
  supports :: "('f \<Rightarrow> 'o \<Rightarrow> 's \<Rightarrow> bool) option"
  applyRule :: "'f \<Rightarrow> 'p option \<Rightarrow> 'o \<Rightarrow> 's \<Rightarrow> 'f ruleRun"

text \<open>One value of the map \<^verbatim>\<open>EffectiveConfiguration.rules\<close>.\<close>

record 'o configuredRule =
  options :: 'o
  severity :: severity
  rulesDirectories :: "string list option"
  rule :: string

text \<open>
  \<^verbatim>\<open>config.rules\<close> is a JavaScript \<^verbatim>\<open>Map\<close>, iterated in insertion order: an association
  list.
\<close>

record ('o, 's) effectiveConfiguration =
  rules :: "(string \<times> 'o configuredRule) list"
  settings :: 's

record ('f, 'p, 'o, 's) preparedRule =
  ctor :: "('f, 'p, 'o, 's) ruleConstructor"
  preparedOptions :: 'o
  ruleName :: string
  preparedSeverity :: severity

record fixResult =
  result :: string
  fixed :: nat
  fixedRange :: textChangeRange

text \<open>\<^verbatim>\<open>AbstractProcessor\<close>: the two methods the linter calls.\<close>

record processor =
  updateSource :: "string \<Rightarrow> textChangeRange \<Rightarrow> string \<times> textChangeRange option"
  postprocess :: "failure list \<Rightarrow> failure list"

text \<open>
  The collaborators of \<^verbatim>\<open>linter.ts\<close> that are not part of it: the injected
  \<^verbatim>\<open>RuleLoader\<close>, the imports \<^verbatim>\<open>applyFixes\<close>, \<^verbatim>\<open>getDisabledRanges\<close>,
  \<^verbatim>\<open>calculateChangeRange\<close>, TypeScript's \<^verbatim>\<open>getLineAndCharacterOfPosition\<close> and the
  field \<^verbatim>\<open>file.text\<close>. They are parameters of the model, functions of their arguments.
  The injected logger is modelled by the list of warnings a call emits.
\<close>

record ('f, 'p, 'o, 's) collaborators =
  loadRule :: "string \<Rightarrow> string list option \<Rightarrow> ('f, 'p, 'o, 's) ruleConstructor option"
  getDisabledRanges :: "string list \<Rightarrow> 'f \<Rightarrow> (string \<rightharpoonup> textRange list)"
  getLineAndCharacterOfPosition :: "'f \<Rightarrow> int \<Rightarrow> int \<times> int"
  applyFixes :: "string \<Rightarrow> fixRecord list \<Rightarrow> fixResult"
  calculateChangeRange :: "string \<Rightarrow> string \<Rightarrow> textChangeRange"
  fileText :: "'f \<Rightarrow> string"

subsection \<open>prepareRules\<close>

record ('f, 'p, 'o, 's) prepareState =
  prepared :: "('f, 'p, 'o, 's) preparedRule list"
  warned :: "string list"

definition quoted :: "string \<Rightarrow> string" where
  "quoted s = CHR 0x27 # s @ [CHR 0x27]"

text \<open>The body of the \<^verbatim>\<open>for ... of config.rules\<close> loop; every \<^verbatim>\<open>continue\<close> leaves the state.\<close>

definition prepareRules_body ::
  "('f, 'p, 'o, 's) collaborators \<Rightarrow> 's \<Rightarrow> 'f \<Rightarrow> 'p option \<Rightarrow>
   ('f, 'p, 'o, 's) prepareState \<Rightarrow> string \<times> 'o configuredRule \<Rightarrow> ('f, 'p, 'o, 's) prepareState"
where
  "prepareRules_body env cfgSettings sourceFile program st entry =
     (case entry of (name, rc) \<Rightarrow>
        if severity rc = Off then st
        else
          (case loadRule env (rule rc) (rulesDirectories rc) of
             None \<Rightarrow> st
           | Some c \<Rightarrow>
               if program = None \<and> requiresTypeInformation c
               then st\<lparr>warned := warned st @ [quoted name @ '' requires type information.'']\<rparr>
               else if (case supports c of
                          None \<Rightarrow> False
                        | Some f \<Rightarrow> \<not> f sourceFile (options rc) cfgSettings)
               then st
               else st\<lparr>prepared := prepared st @
                      [\<lparr>ctor = c, preparedOptions = options rc, ruleName = name,
                        preparedSeverity = severity rc\<rparr>]\<rparr>))"

definition prepareRules ::
  "('f, 'p, 'o, 's) collaborators \<Rightarrow> ('o, 's) effectiveConfiguration \<Rightarrow> 'f \<Rightarrow> 'p option \<Rightarrow>
   ('f, 'p, 'o, 's) prepareState"
where
  "prepareRules env config sourceFile program =
     foldl (prepareRules_body env (settings config) sourceFile program)
       \<lparr>prepared = [], warned = []\<rparr> (rules config)"

subsection \<open>applyRules\<close>

text \<open>
  The mutable locals of \<^verbatim>\<open>applyRules\<close> that its closures write: the failure list and
  the lazily computed \<^verbatim>\<open>DisableMap\<close>.
\<close>

record applyState =
  failuresSoFar :: "failure list"
  disables :: "(string \<rightharpoonup> textRange list) option"

text \<open>The \<^verbatim>\<open>for ... of ruleDisables\<close> loop of \<^verbatim>\<open>isDisabled\<close>.\<close>

fun isDisabled_loop :: "textRange \<Rightarrow> textRange list \<Rightarrow> bool" where
  "isDisabled_loop rng [] = False"
| "isDisabled_loop rng (disabledRange # rest) =
     (if endPos rng > pos disabledRange \<and> pos rng < endPos disabledRange then True
      else isDisabled_loop rng rest)"

text \<open>
  \<^verbatim>\<open>isDisabled\<close> reads the name of the rule being executed (the \<^verbatim>\<open>ruleName\<close> variable the
  \<^verbatim>\<open>for\<close> loop of \<^verbatim>\<open>applyRules\<close> assigns) and fills \<^verbatim>\<open>disables\<close> on first use.
\<close>

definition isDisabled ::
  "('f, 'p, 'o, 's) collaborators \<Rightarrow> 'f \<Rightarrow> ('f, 'p, 'o, 's) preparedRule list \<Rightarrow> string \<Rightarrow>
   textRange \<Rightarrow> applyState \<Rightarrow> bool \<times> applyState"
where
  "isDisabled env sourceFile rs currentRuleName rng st =
     (let d = (case disables st of
                 None \<Rightarrow> getDisabledRanges env (map ruleName rs) sourceFile
               | Some m \<Rightarrow> m);
          st' = st\<lparr>disables := Some d\<rparr>
      in (case d currentRuleName of
            None \<Rightarrow> (False, st')
          | Some ruleDisables \<Rightarrow> (isDisabled_loop rng ruleDisables, st')))"

definition makePosition :: "('f, 'p, 'o, 's) collaborators \<Rightarrow> 'f \<Rightarrow> int \<Rightarrow> failurePosition" where
  "makePosition env sourceFile p =
     (case getLineAndCharacterOfPosition env sourceFile p of
        (l, c) \<Rightarrow> \<lparr>position = p, line = l, character = c\<rparr>)"

definition makeFix :: "fixArgument \<Rightarrow> fixRecord option" where
  "makeFix f =
     (case f of
        NoFix \<Rightarrow> None
      | SingleReplacement r \<Rightarrow> Some \<lparr>replacements = [r]\<rparr>
      | ReplacementArray rs \<Rightarrow> (if length rs = 0 then None else Some \<lparr>replacements = rs\<rparr>))"

definition makeFailure ::
  "('f, 'p, 'o, 's) collaborators \<Rightarrow> 'f \<Rightarrow> ('f, 'p, 'o, 's) preparedRule \<Rightarrow>
   int \<Rightarrow> int \<Rightarrow> string \<Rightarrow> fixArgument \<Rightarrow> failure"
where
  "makeFailure env sourceFile current p e msg f =
     \<lparr>failureRuleName = ruleName current,
      failureSeverity = preparedSeverity current,
      message = msg,
      failureStart = makePosition env sourceFile p,
      failureEnd = makePosition env sourceFile e,
      failureFix = makeFix f\<rparr>"

definition addFailure ::
  "('f, 'p, 'o, 's) collaborators \<Rightarrow> 'f \<Rightarrow> ('f, 'p, 'o, 's) preparedRule list \<Rightarrow>
   ('f, 'p, 'o, 's) preparedRule \<Rightarrow> int \<Rightarrow> int \<Rightarrow> string \<Rightarrow> fixArgument \<Rightarrow>
   applyState \<Rightarrow> applyState"
where
  "addFailure env sourceFile rs current p e msg f st =
     (case isDisabled env sourceFile rs (ruleName current) \<lparr>pos = p, endPos = e\<rparr> st of
        (disabled, st') \<Rightarrow>
          if disabled then st'
          else st'\<lparr>failuresSoFar :=
                 failuresSoFar st' @ [makeFailure env sourceFile current p e msg f]\<rparr>)"

text \<open>Running one rule against the context: each call of the rule acts on the state.\<close>

primrec runRule ::
  "('f, 'p, 'o, 's) collaborators \<Rightarrow> 'f \<Rightarrow> ('f, 'p, 'o, 's) preparedRule list \<Rightarrow>
   ('f, 'p, 'o, 's) preparedRule \<Rightarrow> 'f ruleRun \<Rightarrow> applyState \<Rightarrow> applyState"
where
  "runRule env sourceFile rs current Finished = (\<lambda>st. st)"
| "runRule env sourceFile rs current (AddFailure p e msg f k) =
     (\<lambda>st. runRule env sourceFile rs current k (addFailure env sourceFile rs current p e msg f st))"
| "runRule env sourceFile rs current (AddFailureAt s len msg f k) =
     (\<lambda>st. runRule env sourceFile rs current k
        (addFailure env sourceFile rs current s (s + len) msg f st))"
| "runRule env sourceFile rs current (AddFailureAtNode n msg f k) =
     (\<lambda>st. runRule env sourceFile rs current k
        (addFailure env sourceFile rs current (getStart n sourceFile) (nodeEnd n) msg f st))"
| "runRule env sourceFile rs current (IsDisabled rng k) =
     (\<lambda>st. case isDisabled env sourceFile rs (ruleName current) rng st of
        (b, st') \<Rightarrow> runRule env sourceFile rs current (k b) st')"

definition applyRules ::
  "('f, 'p, 'o, 's) collaborators \<Rightarrow> 'f \<Rightarrow> 'p option \<Rightarrow> ('f, 'p, 'o, 's) preparedRule list \<Rightarrow>
   's \<Rightarrow> failure list"
where
  "applyRules env sourceFile program rs cfgSettings =
     failuresSoFar
       (foldl (\<lambda>st current.
                 runRule env sourceFile rs current
                   (applyRule (ctor current) sourceFile program (preparedOptions current) cfgSettings)
                   st)
          \<lparr>failuresSoFar = [], disables = None\<rparr> rs)"

subsection \<open>getFailures, lintFile and lintAndFix\<close>

text \<open>A call returns its value and the warnings it passed to the logger, in order.\<close>

definition getFailures ::
  "('f, 'p, 'o, 's) collaborators \<Rightarrow> 'f \<Rightarrow> ('o, 's) effectiveConfiguration \<Rightarrow> 'p option \<Rightarrow>
   processor option \<Rightarrow> failure list \<times> string list"
where
  "getFailures env sourceFile config program proc =
     (let st = prepareRules env config sourceFile program;
          rs = prepared st
      in if length rs = 0 then ([], warned st)
         else
           (let fs = applyRules env sourceFile program rs (settings config)
            in (case proc of
                  None \<Rightarrow> (fs, warned st)
                | Some p \<Rightarrow> (if length fs = 0 then fs else postprocess p fs, warned st))))"

definition lintFile ::
  "('f, 'p, 'o, 's) collaborators \<Rightarrow> 'f \<Rightarrow> ('o, 's) effectiveConfiguration \<Rightarrow> 'p option \<Rightarrow>
   failure list \<times> string list"
where
  "lintFile env file config program = getFailures env file config program None"

record lintAndFixFileResult =
  content :: string
  failures :: "failure list"
  fixesApplied :: nat

text \<open>The variables of \<^verbatim>\<open>lintAndFix\<close> that the loop assigns, and the logger's output.\<close>

record ('f, 'p) fixState =
  curContent :: string
  curFile :: 'f
  curProgram :: "'p option"
  curFailures :: "failure list"
  totalFixes :: nat
  logged :: "string list"

text \<open>
  \<^verbatim>\<open>failures.map((f) => f.fix).filter((f) => f !== undefined)\<close>
\<close>

definition collectFixes :: "failure list \<Rightarrow> fixRecord list" where
  "collectFixes fs = List.map_filter (\<lambda>x. x) (map failureFix fs)"

text \<open>
  One iteration of the loop past its two \<^verbatim>\<open>break\<close>s: apply the fixes, update the file,
  lint again.
\<close>

definition fixIteration ::
  "('f, 'p, 'o, 's) collaborators \<Rightarrow> ('o, 's) effectiveConfiguration \<Rightarrow>
   (string \<Rightarrow> textChangeRange \<Rightarrow> 'f \<times> 'p option) \<Rightarrow> processor option \<Rightarrow>
   ('f, 'p) fixState \<Rightarrow> ('f, 'p) fixState"
where
  "fixIteration env config updateFile proc st =
     (let fx = applyFixes env (curContent st) (collectFixes (curFailures st));
          total = totalFixes st + fixed fx;
          newContent = result fx;
          (newSource, range') =
            (case proc of
               Some p \<Rightarrow>
                 (case updateSource p newContent (fixedRange fx) of
                    (transformed, changeRange) \<Rightarrow>
                      (transformed,
                       (case changeRange of
                          Some r \<Rightarrow> r
                        | None \<Rightarrow> calculateChangeRange env (fileText env (curFile st)) transformed)))
             | None \<Rightarrow> (newContent, fixedRange fx));
          (file', program') = updateFile newSource range';
          (fs, ws) = getFailures env file' config program' proc
      in \<lparr>curContent = newContent, curFile = file', curProgram = program',
          curFailures = fs, totalFixes = total, logged = logged st @ ws\<rparr>)"

text \<open>
  \<^verbatim>\<open>for (let i = 0; i < iterations; ++i)\<close> with its two \<^verbatim>\<open>break\<close>s. The counter and the
  cap are integers; a cap of zero or less runs no iteration.
\<close>

function lintAndFix_loop ::
  "('f, 'p, 'o, 's) collaborators \<Rightarrow> ('o, 's) effectiveConfiguration \<Rightarrow>
   (string \<Rightarrow> textChangeRange \<Rightarrow> 'f \<times> 'p option) \<Rightarrow> processor option \<Rightarrow>
   int \<Rightarrow> int \<Rightarrow> ('f, 'p) fixState \<Rightarrow> ('f, 'p) fixState"
where
  "lintAndFix_loop env config updateFile proc i iterations st =
     (if i < iterations then
        (if length (curFailures st) = 0 then st
         else if length (collectFixes (curFailures st)) = 0 then st
         else lintAndFix_loop env config updateFile proc (i + 1) iterations
                (fixIteration env config updateFile proc st))
      else st)"
  by pat_completeness auto
termination
  by (relation "measure (\<lambda>(env, config, updateFile, proc, i, iterations, st). nat (iterations - i))")
    auto

declare lintAndFix_loop.simps [simp del]

text \<open>\<^verbatim>\<open>iterations: number = 10\<close>: an omitted argument takes the default.\<close>

definition lintAndFix ::
  "('f, 'p, 'o, 's) collaborators \<Rightarrow> 'f \<Rightarrow> string \<Rightarrow> ('o, 's) effectiveConfiguration \<Rightarrow>
   (string \<Rightarrow> textChangeRange \<Rightarrow> 'f \<times> 'p option) \<Rightarrow> int option \<Rightarrow> 'p option \<Rightarrow>
   processor option \<Rightarrow> lintAndFixFileResult \<times> string list"
where
  "lintAndFix env file text0 config updateFile iterations program proc =
     (let n = (case iterations of None \<Rightarrow> 10 | Some k \<Rightarrow> k);
          (fs, ws) = getFailures env file config program proc;
          st = lintAndFix_loop env config updateFile proc 0 n
                 \<lparr>curContent = text0, curFile = file, curProgram = program,
                  curFailures = fs, totalFixes = 0, logged = ws\<rparr>
      in (\<lparr>content = curContent st, failures = curFailures st, fixesApplied = totalFixes st\<rparr>,
          logged st))"

subsection \<open>The loop of lintAndFix, unrolled\<close>





section \<open>Restricted element access (src/unnamed/part_000)\<close>

subsection \<open>Syntax tree, symbols and types\<close>

text \<open>\<^verbatim>\<open>ts.SyntaxKind\<close>: the kinds the module names, and a few more for examples.\<close>

datatype syntaxKind =
    ThisKeyword | SuperKeyword | AbstractKeyword | StaticKeyword | PrivateKeyword
  | ProtectedKeyword
  | ClassDeclaration | ClassExpression | SourceFile
  | ComputedPropertyName | ExpressionWithTypeArguments | Decorator | Parameter
  | PropertyDeclaration | MethodDeclaration | MethodSignature | GetAccessor | SetAccessor
  | Constructor | FunctionDeclaration | FunctionExpression | EnumDeclaration
  | ArrowFunction | Block | ElementAccessExpression | PropertySignature | Identifier
  | OtherKind nat

text \<open>
  \<^verbatim>\<open>ts.ModifierFlags\<close> is a bit-flag enumeration. A value is the set of its flags:
  \<^verbatim>\<open>a | b\<close> is the union, \<^verbatim>\<open>a & b\<close> the intersection, \<^verbatim>\<open>None\<close> the empty set, and
  \<^verbatim>\<open>NonPublicAccessibilityModifier\<close> is \<^verbatim>\<open>Private | Protected\<close>.
\<close>

datatype modifierFlag =
  Export | Ambient | Public | Private | Protected | Static | Readonly | Abstract | Async | Default

definition NonPublicAccessibilityModifier :: "modifierFlag set" where
  "NonPublicAccessibilityModifier = {Private, Protected}"

text \<open>
  A parameter declaration: whether tsutils' \<^verbatim>\<open>isThisParameter\<close> holds of it, and its
  \<^verbatim>\<open>type\<close> annotation (a type node, by number) when it has one.
\<close>

record parameterDeclaration =
  isThisParameter :: bool
  parameterType :: "nat option"

text \<open>
  The fields of a \<^verbatim>\<open>ts.Node\<close> the module reads. \<^verbatim>\<open>expression\<close> is the kind of
  \<^verbatim>\<open>node.expression\<close> of an element access expression, \<^verbatim>\<open>parameters\<close> the parameter list
  of a function-like declaration, \<^verbatim>\<open>modifiers\<close> is \<^verbatim>\<open>undefined\<close> or the kinds of the
  modifier tokens.
\<close>

record nodeInfo = textRange +
  kind :: syntaxKind
  modifiers :: "syntaxKind list option"
  parameters :: "parameterDeclaration list"
  expression :: syntaxKind

text \<open>A node carries its \<^verbatim>\<open>parent\<close>, which is \<^verbatim>\<open>undefined\<close> at the root.\<close>

datatype tsNode = Node (info: nodeInfo) (parent: "tsNode option")

abbreviation kindOf :: "tsNode \<Rightarrow> syntaxKind" where
  "kindOf n \<equiv> kind (info n)"

text \<open>
  The field \<^verbatim>\<open>target\<close> of a type. tsutils' \<^verbatim>\<open>isTypeReference\<close> holds exactly when the type
  has one. The declared type of a class or of a generic interface is its own target: the
  object graph has a cycle there, which \<open>OwnTarget\<close> stands for. An instantiation of a
  generic type has the generic type as its target.
\<close>

datatype 'a typeTarget = NoTarget | OwnTarget | OtherTarget 'a

text \<open>
  A \<^verbatim>\<open>ts.Type\<close>. \<^verbatim>\<open>types\<close> is present exactly when \<^verbatim>\<open>isIntersectionType\<close> holds;
  \<^verbatim>\<open>getBaseTypes()\<close> may return \<^verbatim>\<open>undefined\<close>; \<^verbatim>\<open>symbolDeclarations\<close> is
  \<^verbatim>\<open>type.symbol.declarations\<close>, absent when either is \<^verbatim>\<open>undefined\<close>. Types are objects
  compared by identity: \<^verbatim>\<open>typeId\<close> stands for the object.
\<close>

datatype tsType =
  TsType (typeId: nat) (isTypeParameter: bool) (getConstraint: "tsType option")
    (targetField: "tsType typeTarget") (getBaseTypes: "tsType list option")
    (types: "tsType list option") (symbolDeclarations: "tsNode list option")

text \<open>\<^verbatim>\<open>isTypeReference(t) ? t.target : undefined\<close>\<close>

definition target :: "tsType \<Rightarrow> tsType option" where
  "target t =
     (case targetField t of
        NoTarget \<Rightarrow> None
      | OwnTarget \<Rightarrow> Some t
      | OtherTarget t' \<Rightarrow> Some t')"

record symbol =
  declarations :: "tsNode list option"

text \<open>
  Reading a property of \<^verbatim>\<open>undefined\<close>, or iterating it, throws a \<^verbatim>\<open>TypeError\<close>; the
  non-null assertions \<^verbatim>\<open>!\<close> and the casts of the source check nothing.
\<close>

datatype jsError = TypeError

text \<open>
  The functions of TypeScript and tsutils the module calls, parameters of the model:
  the checker's \<^verbatim>\<open>typeToString\<close> and \<^verbatim>\<open>getTypeFromTypeNode\<close>,
  \<^verbatim>\<open>ts.getCombinedModifierFlags\<close>, and tsutils' \<^verbatim>\<open>isFunctionScopeBoundary\<close> and
  \<^verbatim>\<open>getInstanceTypeOfClassLikeDeclaration\<close>. The last one asks the checker for the symbol
  at the name or the \<^verbatim>\<open>class\<close> keyword of its argument and for the declared type of that
  symbol. The module passes it nodes that it has only cast to \<^verbatim>\<open>ClassLikeDeclaration\<close>: on
  a node without name and \<^verbatim>\<open>class\<close> keyword, such as a constructor, it finds no symbol
  and throws, so the call returns a type or an error.
\<close>

record typeChecker =
  typeToString :: "tsType \<Rightarrow> string"
  getTypeFromTypeNode :: "nat \<Rightarrow> tsType"
  getCombinedModifierFlags :: "tsNode \<Rightarrow> modifierFlag set"
  isFunctionScopeBoundary :: "tsNode \<Rightarrow> bool"
  getInstanceTypeOfClassLikeDeclaration :: "tsNode \<Rightarrow> jsError + tsType"

definition bindE :: "jsError + 'a \<Rightarrow> ('a \<Rightarrow> jsError + 'b) \<Rightarrow> jsError + 'b" where
  "bindE m f = (case m of Inl e \<Rightarrow> Inl e | Inr v \<Rightarrow> f v)"

text \<open>\<^verbatim>\<open>Array.prototype.every\<close> and \<^verbatim>\<open>some\<close> with a callback that may throw.\<close>

fun everyE :: "('a \<Rightarrow> jsError + bool) \<Rightarrow> 'a list \<Rightarrow> jsError + bool" where
  "everyE f [] = Inr True"
| "everyE f (x # xs) =
     (case f x of Inl e \<Rightarrow> Inl e | Inr True \<Rightarrow> everyE f xs | Inr False \<Rightarrow> Inr False)"

text \<open>tsutils' \<^verbatim>\<open>hasModifier(modifiers, kind)\<close>.\<close>

definition hasModifier :: "syntaxKind list option \<Rightarrow> syntaxKind \<Rightarrow> bool" where
  "hasModifier ms k = (case ms of None \<Rightarrow> False | Some l \<Rightarrow> k \<in> set l)"

subsection \<open>Symbol queries\<close>

definition getModifierFlagsOfSymbol :: "typeChecker \<Rightarrow> symbol \<Rightarrow> modifierFlag set" where
  "getModifierFlagsOfSymbol checker symb =
     (case declarations symb of
        None \<Rightarrow> {}
      | Some ds \<Rightarrow> foldl (\<lambda>flags decl. flags \<union> getCombinedModifierFlags checker decl) {} ds)"

fun hasNonPrototypeDeclaration_loop :: "tsNode list \<Rightarrow> bool" where
  "hasNonPrototypeDeclaration_loop [] = False"
| "hasNonPrototypeDeclaration_loop (d # ds) =
     (if kindOf d = MethodDeclaration \<or> kindOf d = MethodSignature \<or>
         kindOf d = GetAccessor \<or> kindOf d = SetAccessor
      then hasNonPrototypeDeclaration_loop ds
      else True)"

definition hasNonPrototypeDeclaration :: "symbol \<Rightarrow> jsError + bool" where
  "hasNonPrototypeDeclaration symb =
     (case declarations symb of
        None \<Rightarrow> Inl TypeError
      | Some ds \<Rightarrow> Inr (hasNonPrototypeDeclaration_loop ds))"

subsection \<open>Inheritance search\<close>

definition isIdentical :: "tsType \<Rightarrow> tsType \<Rightarrow> jsError + bool" where
  "isIdentical a b = Inr (typeId a = typeId b)"

text \<open>
  \<^verbatim>\<open>type.symbol!.declarations!.includes(declaration)\<close>; the declaration searched for is
  some declaration's \<^verbatim>\<open>parent\<close> and may be \<^verbatim>\<open>undefined\<close>.
\<close>

definition typeContainsDeclaration :: "tsType \<Rightarrow> tsNode option \<Rightarrow> jsError + bool" where
  "typeContainsDeclaration t declaration =
     (case symbolDeclarations t of
        None \<Rightarrow> Inl TypeError
      | Some ds \<Rightarrow> Inr (declaration \<in> Some ` set ds))"

text \<open>
  The local function \<^verbatim>\<open>recur\<close> of \<^verbatim>\<open>hasBase\<close>. \<open>recur_rest\<close> is its part after the
  type-reference test, \<open>recur_some\<close> is \<^verbatim>\<open>.some(recur)\<close>. The test assigns
  \<^verbatim>\<open>t = t.target\<close>, which leaves a type that is its own target as it is.
\<close>

fun recur :: "(tsType \<Rightarrow> 'n \<Rightarrow> jsError + bool) \<Rightarrow> 'n \<Rightarrow> tsType \<Rightarrow> jsError + bool"
  and recur_rest :: "(tsType \<Rightarrow> 'n \<Rightarrow> jsError + bool) \<Rightarrow> 'n \<Rightarrow> tsType \<Rightarrow> jsError + bool"
  and recur_some :: "(tsType \<Rightarrow> 'n \<Rightarrow> jsError + bool) \<Rightarrow> 'n \<Rightarrow> tsType list \<Rightarrow> jsError + bool"
where
  "recur check needle (TsType i tp c tg bs ts sd) =
     (case tg of
        OtherTarget t \<Rightarrow>
          (case check t needle of
             Inl e \<Rightarrow> Inl e
           | Inr True \<Rightarrow> Inr True
           | Inr False \<Rightarrow> recur_rest check needle t)
      | OwnTarget \<Rightarrow>
          (case check (TsType i tp c tg bs ts sd) needle of
             Inl e \<Rightarrow> Inl e
           | Inr True \<Rightarrow> Inr True
           | Inr False \<Rightarrow> recur_rest check needle (TsType i tp c tg bs ts sd))
      | NoTarget \<Rightarrow> recur_rest check needle (TsType i tp c tg bs ts sd))"
| "recur_rest check needle (TsType i tp c tg bs ts sd) =
     (case (case bs of None \<Rightarrow> Inr False | Some l \<Rightarrow> recur_some check needle l) of
        Inl e \<Rightarrow> Inl e
      | Inr True \<Rightarrow> Inr True
      | Inr False \<Rightarrow> (case ts of None \<Rightarrow> Inr False | Some l \<Rightarrow> recur_some check needle l))"
| "recur_some check needle [] = Inr False"
| "recur_some check needle (x # xs) =
     (case recur check needle x of
        Inl e \<Rightarrow> Inl e
      | Inr True \<Rightarrow> Inr True
      | Inr False \<Rightarrow> recur_some check needle xs)"

definition hasBase ::
  "tsType \<Rightarrow> 'n \<Rightarrow> (tsType \<Rightarrow> 'n \<Rightarrow> jsError + bool) \<Rightarrow> jsError + bool"
where
  "hasBase t needle check = recur check needle t"

subsection \<open>Ancestor walks\<close>

text \<open>
  The loops \<^verbatim>\<open>while (true) { switch (node.kind) ... }\<close> either return or assign \<^verbatim>\<open>node\<close>
  and go round again. One round of a loop is a step: it returns a value, throws, or
  names the node the next round starts from. A chain \<^verbatim>\<open>node.parent!.parent!\<close> that meets
  \<^verbatim>\<open>undefined\<close> on its way throws at once, one that ends in \<^verbatim>\<open>undefined\<close> throws when
  the next round reads \<^verbatim>\<open>node.kind\<close>: both are the \<^verbatim>\<open>TypeError\<close> of the walk.
\<close>

datatype 'r walkStep = Return 'r | Throw jsError | Ascend "tsNode option"

definition isStaticSuper_step :: "tsNode \<Rightarrow> bool walkStep" where
  "isStaticSuper_step node =
     (if kindOf node = ComputedPropertyName \<or> kindOf node = ExpressionWithTypeArguments
      then Ascend (Option.bind (Option.bind (parent node) parent) parent)
      else if kindOf node = Decorator then
        (case parent node of
           None \<Rightarrow> Throw TypeError
         | Some p \<Rightarrow>
             if kindOf p = ClassDeclaration \<or> kindOf p = ClassExpression
             then Ascend (parent p)
             else if kindOf p = Parameter
             then Ascend (Option.bind (Option.bind (parent p) parent) parent)
             else Ascend (Option.bind (parent p) parent))
      else if kindOf node = PropertyDeclaration \<or> kindOf node = MethodDeclaration \<or>
              kindOf node = GetAccessor \<or> kindOf node = SetAccessor
      then Return (hasModifier (modifiers (info node)) StaticKeyword)
      else if kindOf node = Constructor then Return False
      else Ascend (parent node))"

definition getThisParameterFromContext_step :: "tsNode \<Rightarrow> parameterDeclaration option walkStep" where
  "getThisParameterFromContext_step node =
     (if kindOf node = FunctionDeclaration \<or> kindOf node = FunctionExpression \<or>
         kindOf node = MethodDeclaration
      then Return (case parameters (info node) of
                     [] \<Rightarrow> None
                   | p0 # _ \<Rightarrow> if isThisParameter p0 then Some p0 else None)
      else if kindOf node = ClassDeclaration \<or> kindOf node = ClassExpression \<or>
              kindOf node = SetAccessor \<or> kindOf node = GetAccessor \<or>
              kindOf node = EnumDeclaration \<or> kindOf node = SourceFile
      then Return None
      else if kindOf node = ComputedPropertyName \<or> kindOf node = ExpressionWithTypeArguments
      then Ascend (Option.bind (Option.bind (parent node) parent) parent)
      else if kindOf node = Decorator then
        (case parent node of
           None \<Rightarrow> Throw TypeError
         | Some p \<Rightarrow>
             if kindOf p = ClassDeclaration \<or> kindOf p = ClassExpression
             then Ascend (parent p)
             else if kindOf p = Parameter
             then Ascend (Option.bind (Option.bind (parent p) parent) parent)
             else Ascend (Option.bind (parent p) parent))
      else Ascend (parent node))"

text \<open>The \<open>k\<close>-th ancestor of a node: \<open>k\<close> times \<^verbatim>\<open>.parent\<close>.\<close>

fun ancestor :: "nat \<Rightarrow> tsNode \<Rightarrow> tsNode option" where
  "ancestor 0 n = Some n"
| "ancestor (Suc k) n = Option.bind (parent n) (ancestor k)"

lemma size_parent: "parent n = Some p \<Longrightarrow> size p < size n"
  by (cases n) auto

lemma size_ancestor: "ancestor k n = Some a \<Longrightarrow> 0 < k \<Longrightarrow> size a < size n"
proof (induction k arbitrary: n)
  case 0
  then show ?case by simp
next
  case (Suc k)
  then obtain p where p: "parent n = Some p" and a: "ancestor k p = Some a"
    by (auto simp: bind_eq_Some_conv)
  show ?case
  proof (cases k)
    case 0
    with a p show ?thesis by (simp add: size_parent)
  next
    case (Suc j)
    with Suc.IH [OF a] have "size a < size p" by simp
    with size_parent [OF p] show ?thesis by simp
  qed
qed

lemma bind_ancestor_0: "Option.bind x (ancestor 0) = x"
  by (cases x) simp_all

lemma parent_chain_2: "Option.bind (parent n) parent = ancestor 2 n"
  by (cases "parent n") (simp_all add: numeral_2_eq_2 bind_ancestor_0)

lemma parent_chain_3: "Option.bind (ancestor 2 n) parent = ancestor 3 n"
proof (cases "parent n")
  case None
  then show ?thesis by (simp add: numeral_3_eq_3 numeral_2_eq_2)
next
  case (Some p)
  then show ?thesis
    by (cases "parent p") (simp_all add: numeral_3_eq_3 numeral_2_eq_2 bind_ancestor_0)
qed

lemma isStaticSuper_step_smaller:
  "isStaticSuper_step node = Ascend (Some n') \<Longrightarrow> size n' < size node"
  unfolding isStaticSuper_step_def parent_chain_2 parent_chain_3
  by (auto split: if_splits option.splits
      dest!: size_ancestor size_parent)

lemma getThisParameterFromContext_step_smaller:
  "getThisParameterFromContext_step node = Ascend (Some n') \<Longrightarrow> size n' < size node"
  unfolding getThisParameterFromContext_step_def parent_chain_2 parent_chain_3
  by (auto split: if_splits option.splits
      dest!: size_ancestor size_parent)

function isStaticSuper :: "tsNode \<Rightarrow> jsError + bool" where
  "isStaticSuper node =
     (case isStaticSuper_step node of
        Return b \<Rightarrow> Inr b
      | Throw e \<Rightarrow> Inl e
      | Ascend None \<Rightarrow> Inl TypeError
      | Ascend (Some n') \<Rightarrow> isStaticSuper n')"
  by pat_completeness auto
termination
  by (relation "measure size") (auto simp: isStaticSuper_step_smaller)

function getThisParameterFromContext :: "tsNode \<Rightarrow> jsError + parameterDeclaration option" where
  "getThisParameterFromContext node =
     (case getThisParameterFromContext_step node of
        Return r \<Rightarrow> Inr r
      | Throw e \<Rightarrow> Inl e
      | Ascend None \<Rightarrow> Inl TypeError
      | Ascend (Some n') \<Rightarrow> getThisParameterFromContext n')"
  by pat_completeness auto
termination
  by (relation "measure size") (auto simp: getThisParameterFromContext_step_smaller)

declare isStaticSuper.simps [simp del]
declare getThisParameterFromContext.simps [simp del]

text \<open>
  \<^verbatim>\<open>getEnclosingClassOfAbstractPropertyAccess\<close>: up to the first function scope boundary.
  Past the root, tsutils' \<^verbatim>\<open>isFunctionScopeBoundary\<close> reads \<^verbatim>\<open>kind\<close> of \<^verbatim>\<open>undefined\<close>.
\<close>

fun getEnclosingClassOfAbstractPropertyAccess ::
  "typeChecker \<Rightarrow> tsNode \<Rightarrow> jsError + tsNode option"
where
  "getEnclosingClassOfAbstractPropertyAccess checker (Node i par) =
     (if isFunctionScopeBoundary checker (Node i par) then
        (if kind i = ClassDeclaration \<or> kind i = ClassExpression then Inr (Some (Node i par))
         else if kind i = Constructor then Inr par
         else Inr None)
      else
        (case par of
           None \<Rightarrow> Inl TypeError
         | Some p \<Rightarrow> getEnclosingClassOfAbstractPropertyAccess checker p))"

text \<open>
  \<^verbatim>\<open>findEnclosingClass\<close>: up to the first class whose instance type has every base class,
  or to the source file. The base classes are the \<^verbatim>\<open>parent\<close>s of the declarations of the
  symbol, any of which may be \<^verbatim>\<open>undefined\<close>.
\<close>

fun findEnclosingClass ::
  "tsNode \<Rightarrow> tsNode option list \<Rightarrow> typeChecker \<Rightarrow> jsError + tsType option"
where
  "findEnclosingClass (Node i par) baseClasses checker =
     (if kind i = ClassDeclaration \<or> kind i = ClassExpression then
        (case getInstanceTypeOfClassLikeDeclaration checker (Node i par) of
           Inl e \<Rightarrow> Inl e
         | Inr declaredType \<Rightarrow>
             (case everyE
                     (\<lambda>baseClass. hasBase declaredType baseClass typeContainsDeclaration)
                     baseClasses of
                Inl e \<Rightarrow> Inl e
              | Inr True \<Rightarrow> Inr (Some declaredType)
              | Inr False \<Rightarrow>
                  (case par of
                     None \<Rightarrow> Inl TypeError
                   | Some p \<Rightarrow> findEnclosingClass p baseClasses checker)))
      else if kind i = SourceFile then Inr None
      else
        (case par of
           None \<Rightarrow> Inl TypeError
         | Some p \<Rightarrow> findEnclosingClass p baseClasses checker))"

text \<open>
  \<^verbatim>\<open>printClass\<close>; tsutils' \<^verbatim>\<open>getInstanceTypeOfClassLikeDeclaration\<close> reads \<^verbatim>\<open>kind\<close> of its
  argument, which throws when a caller passes a \<^verbatim>\<open>parent\<close> that is \<^verbatim>\<open>undefined\<close>, and it
  throws on a node of which it finds no class symbol.
\<close>

definition printClass :: "tsNode option \<Rightarrow> typeChecker \<Rightarrow> jsError + string" where
  "printClass declaration checker =
     (case declaration of
        None \<Rightarrow> Inl TypeError
      | Some d \<Rightarrow>
          bindE (getInstanceTypeOfClassLikeDeclaration checker d) (\<lambda>t.
            Inr (typeToString checker t)))"

text \<open>
  \<^verbatim>\<open>getEnclosingClassFromThisParameter\<close> is called with \<^verbatim>\<open>node.parent!\<close>. A type parameter
  is replaced by its constraint, a type reference by its target.
\<close>

definition getEnclosingClassFromThisParameter ::
  "tsNode option \<Rightarrow> tsNode option list \<Rightarrow> typeChecker \<Rightarrow> jsError + tsType option"
where
  "getEnclosingClassFromThisParameter node baseClasses checker =
     (case node of
        None \<Rightarrow> Inl TypeError
      | Some n \<Rightarrow>
          bindE (getThisParameterFromContext n) (\<lambda>thisParameter.
            (case Option.bind thisParameter parameterType of
               None \<Rightarrow> Inr None
             | Some typeNode \<Rightarrow>
                 (let thisType = getTypeFromTypeNode checker typeNode
                  in (case (if isTypeParameter thisType then getConstraint thisType
                            else Some thisType) of
                        None \<Rightarrow> Inr None
                      | Some constrained \<Rightarrow>
                          (let thisType' = (case target constrained of
                                              Some t \<Rightarrow> t
                                            | None \<Rightarrow> constrained)
                           in bindE
                                (everyE
                                   (\<lambda>baseClass.
                                      hasBase thisType' baseClass typeContainsDeclaration)
                                   baseClasses)
                                (\<lambda>ok. Inr (if ok then Some thisType' else None))))))))"

subsection \<open>getRestrictedElementAccessError\<close>

definition failVisibility :: "string \<Rightarrow> string \<Rightarrow> bool \<Rightarrow> string" where
  "failVisibility property typeString isPrivate =
     ''Property '' @ quoted property @ '' is '' @
     (if isPrivate then ''private'' else ''protected'') @
     '' and only accessible within class '' @ quoted typeString @
     (if isPrivate then [] else '' and its subclasses'') @ ''.''"

definition abstractInitializationMessage :: "string \<Rightarrow> string \<Rightarrow> string" where
  "abstractInitializationMessage name cls =
     ''Abstract property '' @ quoted name @ '' in class '' @ quoted cls @
     '' cannot be accessed during class initialization.''"

definition superPropertyMessage :: string where
  "superPropertyMessage =
     ''Only public and protected methods and accessors of the base class are accessible via the ''
     @ quoted ''super'' @ '' keyword.''"

definition abstractSuperMessage :: "string \<Rightarrow> string \<Rightarrow> string" where
  "abstractSuperMessage name cls =
     ''Abstract member '' @ quoted name @ '' in class '' @ quoted cls @
     '' cannot be accessed via the '' @ quoted ''super'' @ '' keyword.''"

definition protectedInstanceMessage :: "string \<Rightarrow> string \<Rightarrow> string" where
  "protectedInstanceMessage name cls =
     ''Property '' @ quoted name @
     '' is protected and only accessible through an instance of class '' @ quoted cls @ ''.''"

text \<open>
  The function is three blocks in a row, each of which may return a message. The first:
  lines 21 to 28, the access to an abstract property through \<^verbatim>\<open>this\<close>.
\<close>

definition abstractPropertyCheck ::
  "typeChecker \<Rightarrow> symbol \<Rightarrow> string \<Rightarrow> tsNode \<Rightarrow> modifierFlag set \<Rightarrow> jsError + string option"
where
  "abstractPropertyCheck checker symb name node flags =
     (if expression (info node) = ThisKeyword \<and> Abstract \<in> flags then
        bindE (hasNonPrototypeDeclaration symb) (\<lambda>nonPrototype.
          if nonPrototype then
            (case parent node of
               None \<Rightarrow> Inl TypeError
             | Some p \<Rightarrow>
                 bindE (getEnclosingClassOfAbstractPropertyAccess checker p) (\<lambda>enclosingClass.
                   (case enclosingClass of
                      None \<Rightarrow> Inr None
                    | Some c \<Rightarrow>
                        bindE (printClass (Some c) checker) (\<lambda>cls.
                          Inr (Some (abstractInitializationMessage name cls))))))
          else Inr None)
      else Inr None)"

text \<open>The second block: lines 29 to 37, the access through \<^verbatim>\<open>super\<close>.\<close>

definition superCheck ::
  "typeChecker \<Rightarrow> symbol \<Rightarrow> string \<Rightarrow> tsNode \<Rightarrow> modifierFlag set \<Rightarrow> jsError + string option"
where
  "superCheck checker symb name node flags =
     (if expression (info node) = SuperKeyword \<and> Static \<notin> flags then
        bindE (isStaticSuper node) (\<lambda>static.
          if \<not> static then
            bindE (hasNonPrototypeDeclaration symb) (\<lambda>nonPrototype.
              if nonPrototype then Inr (Some superPropertyMessage)
              else if Abstract \<in> flags then
                (case declarations symb of
                   None \<Rightarrow> Inl TypeError
                 | Some ds \<Rightarrow>
                     if list_all (\<lambda>d. hasModifier (modifiers (info d)) AbstractKeyword) ds then
                       (case ds of
                          [] \<Rightarrow> Inl TypeError
                        | d0 # _ \<Rightarrow>
                            bindE (printClass (parent d0) checker) (\<lambda>cls.
                              Inr (Some (abstractSuperMessage name cls))))
                     else Inr None)
              else Inr None)
          else Inr None)
      else Inr None)"

text \<open>The third block: lines 39 to 57, private and protected members.\<close>

definition visibilityCheck ::
  "typeChecker \<Rightarrow> symbol \<Rightarrow> string \<Rightarrow> tsNode \<Rightarrow> tsType \<Rightarrow> modifierFlag set \<Rightarrow>
   jsError + string option"
where
  "visibilityCheck checker symb name node lhsType flags =
     (if flags \<inter> NonPublicAccessibilityModifier = {} then Inr None
      else if Private \<in> flags then
        (case declarations symb of
           None \<Rightarrow> Inl TypeError
         | Some [] \<Rightarrow> Inl TypeError
         | Some (d0 # _) \<Rightarrow>
             (case parent d0 of
                None \<Rightarrow> Inl TypeError
              | Some declaringClass \<Rightarrow>
                  if pos (info node) < pos (info declaringClass) \<or>
                     endPos (info node) > endPos (info declaringClass)
                  then bindE (printClass (Some declaringClass) checker) (\<lambda>cls.
                         Inr (Some (failVisibility name cls True)))
                  else Inr None))
      else
        (case declarations symb of
           None \<Rightarrow> Inl TypeError
         | Some ds \<Rightarrow>
             (let declaringClasses = map parent ds
              in bindE
                   (case parent node of
                      None \<Rightarrow> Inl TypeError
                    | Some p \<Rightarrow>
                        bindE (findEnclosingClass p declaringClasses checker) (\<lambda>found.
                          (case found of
                             Some c \<Rightarrow> Inr (Some c)
                           | None \<Rightarrow>
                               if Static \<notin> flags
                               then getEnclosingClassFromThisParameter (parent node)
                                      declaringClasses checker
                               else Inr None)))
                   (\<lambda>enclosingClass.
                      (case enclosingClass of
                         None \<Rightarrow>
                           Inr (Some (failVisibility name (typeToString checker lhsType) False))
                       | Some c \<Rightarrow>
                           if Static \<notin> flags then
                             bindE (hasBase lhsType c isIdentical) (\<lambda>inherits.
                               if \<not> inherits
                               then Inr (Some (protectedInstanceMessage name
                                                 (typeToString checker c)))
                               else Inr None)
                           else Inr None)))))"

definition getRestrictedElementAccessError ::
  "typeChecker \<Rightarrow> symbol \<Rightarrow> string \<Rightarrow> tsNode \<Rightarrow> tsType \<Rightarrow> jsError + string option"
where
  "getRestrictedElementAccessError checker symb name node lhsType =
     (let flags = getModifierFlagsOfSymbol checker symb
      in bindE (abstractPropertyCheck checker symb name node flags) (\<lambda>r1.
           (case r1 of
              Some m \<Rightarrow> Inr (Some m)
            | None \<Rightarrow>
                bindE (superCheck checker symb name node flags) (\<lambda>r2.
                  (case r2 of
                     Some m \<Rightarrow> Inr (Some m)
                   | None \<Rightarrow> visibilityCheck checker symb name node lhsType flags)))))"

section \<open>Notions of the specification\<close>

text \<open>
  The properties below are stated with the following notions, written from the words of
  the specification and compared with the code.
\<close>

subsection \<open>Which configured rules are prepared\<close>

text \<open>
  A configured rule is included when its severity is not \<^verbatim>\<open>off\<close>, its module loads, it
  does not require type information while no program is supplied, and its \<^verbatim>\<open>supports\<close>
  predicate, if it has one, accepts the file, the options and the settings.
\<close>

definition ruleIncluded ::
  "('f, 'p, 'o, 's) collaborators \<Rightarrow> ('o, 's) effectiveConfiguration \<Rightarrow> 'f \<Rightarrow> 'p option \<Rightarrow>
   string \<times> 'o configuredRule \<Rightarrow> bool"
where
  "ruleIncluded env config sourceFile program entry =
     (severity (snd entry) \<noteq> Off \<and>
      (case loadRule env (rule (snd entry)) (rulesDirectories (snd entry)) of
         None \<Rightarrow> False
       | Some c \<Rightarrow>
           \<not> (program = None \<and> requiresTypeInformation c) \<and>
           (case supports c of
              None \<Rightarrow> True
            | Some f \<Rightarrow> f sourceFile (options (snd entry)) (settings config))))"

text \<open>The skip that is reported: an active, loaded rule that needs a program when there is none.\<close>

definition ruleLacksTypeInformation ::
  "('f, 'p, 'o, 's) collaborators \<Rightarrow> 'p option \<Rightarrow> string \<times> 'o configuredRule \<Rightarrow> bool"
where
  "ruleLacksTypeInformation env program entry =
     (severity (snd entry) \<noteq> Off \<and>
      (case loadRule env (rule (snd entry)) (rulesDirectories (snd entry)) of
         None \<Rightarrow> False
       | Some c \<Rightarrow> program = None \<and> requiresTypeInformation c))"

definition preparedFrom ::
  "('f, 'p, 'o, 's) collaborators \<Rightarrow> string \<times> 'o configuredRule \<Rightarrow> ('f, 'p, 'o, 's) preparedRule"
where
  "preparedFrom env entry =
     \<lparr>ctor = the (loadRule env (rule (snd entry)) (rulesDirectories (snd entry))),
      preparedOptions = options (snd entry), ruleName = fst entry,
      preparedSeverity = severity (snd entry)\<rparr>"

definition typeInformationWarning :: "string \<times> 'o configuredRule \<Rightarrow> string" where
  "typeInformationWarning entry = quoted (fst entry) @ '' requires type information.''"

subsection \<open>Suppressed failures\<close>

text \<open>
  Two ranges overlap, and do not merely touch, when each begins before the other ends.
\<close>

definition overlaps :: "textRange \<Rightarrow> textRange \<Rightarrow> bool" where
  "overlaps a b = (pos a < endPos b \<and> pos b < endPos a)"

text \<open>The disabled ranges recorded for a rule name in a pass over a file.\<close>

definition recordedRanges ::
  "('f, 'p, 'o, 's) collaborators \<Rightarrow> 'f \<Rightarrow> ('f, 'p, 'o, 's) preparedRule list \<Rightarrow> string \<Rightarrow>
   textRange list"
where
  "recordedRanges env sourceFile rs name =
     (case getDisabledRanges env (map ruleName rs) sourceFile name of
        None \<Rightarrow> []
      | Some ranges \<Rightarrow> ranges)"

definition suppressed ::
  "('f, 'p, 'o, 's) collaborators \<Rightarrow> 'f \<Rightarrow> ('f, 'p, 'o, 's) preparedRule list \<Rightarrow> string \<Rightarrow>
   textRange \<Rightarrow> bool"
where
  "suppressed env sourceFile rs name rng =
     list_ex (overlaps rng) (recordedRanges env sourceFile rs name)"

text \<open>
  The failures a rule reports in its run, in order: the arguments that reach
  \<^verbatim>\<open>addFailure\<close>, when \<^verbatim>\<open>isDisabled\<close> answers the rule as \<open>answer\<close> does.
\<close>

primrec reportedCalls ::
  "(textRange \<Rightarrow> bool) \<Rightarrow> 'f \<Rightarrow> 'f ruleRun \<Rightarrow> (textRange \<times> string \<times> fixArgument) list"
where
  "reportedCalls answer sourceFile Finished = []"
| "reportedCalls answer sourceFile (AddFailure p e msg f k) =
     (\<lparr>pos = p, endPos = e\<rparr>, msg, f) # reportedCalls answer sourceFile k"
| "reportedCalls answer sourceFile (AddFailureAt s len msg f k) =
     (\<lparr>pos = s, endPos = s + len\<rparr>, msg, f) # reportedCalls answer sourceFile k"
| "reportedCalls answer sourceFile (AddFailureAtNode n msg f k) =
     (\<lparr>pos = getStart n sourceFile, endPos = nodeEnd n\<rparr>, msg, f) #
     reportedCalls answer sourceFile k"
| "reportedCalls answer sourceFile (IsDisabled rng k) =
     reportedCalls answer sourceFile (k (answer rng))"

definition reportsOfRule ::
  "('f, 'p, 'o, 's) collaborators \<Rightarrow> 'f \<Rightarrow> 'p option \<Rightarrow> ('f, 'p, 'o, 's) preparedRule list \<Rightarrow>
   's \<Rightarrow> ('f, 'p, 'o, 's) preparedRule \<Rightarrow> (textRange \<times> string \<times> fixArgument) list"
where
  "reportsOfRule env sourceFile program rs cfgSettings current =
     reportedCalls (suppressed env sourceFile rs (ruleName current)) sourceFile
       (applyRule (ctor current) sourceFile program (preparedOptions current) cfgSettings)"

definition failureOfReport ::
  "('f, 'p, 'o, 's) collaborators \<Rightarrow> 'f \<Rightarrow> ('f, 'p, 'o, 's) preparedRule \<Rightarrow>
   textRange \<times> string \<times> fixArgument \<Rightarrow> failure"
where
  "failureOfReport env sourceFile current report =
     (case report of (rng, msg, f) \<Rightarrow>
        makeFailure env sourceFile current (pos rng) (endPos rng) msg f)"

text \<open>
  The memo cell of \<^verbatim>\<open>isDisabled\<close> is empty or holds the map of this pass.
\<close>

definition memoOk ::
  "('f, 'p, 'o, 's) collaborators \<Rightarrow> 'f \<Rightarrow> ('f, 'p, 'o, 's) preparedRule list \<Rightarrow> applyState \<Rightarrow> bool"
where
  "memoOk env sourceFile rs st =
     (disables st = None \<or>
      disables st = Some (getDisabledRanges env (map ruleName rs) sourceFile))"

subsection \<open>The passes of lintAndFix\<close>










subsection \<open>Members and classes\<close>

text \<open>
  A declaration is a member of the prototype when it is a method, a method signature or
  an accessor; a property, and a parameter property, is not.
\<close>

definition isPrototypeMember :: "tsNode \<Rightarrow> bool" where
  "isPrototypeMember d =
     (kindOf d \<in> {MethodDeclaration, MethodSignature, GetAccessor, SetAccessor})"

definition isClassLike :: "tsNode \<Rightarrow> bool" where
  "isClassLike n = (kindOf n = ClassDeclaration \<or> kindOf n = ClassExpression)"

subsection \<open>Resuming a walk\<close>

text \<open>
  A walk that ascends to an ancestor and resumes there goes on as the walk started at
  that ancestor does. When the tree ends below that ancestor there is no node to resume
  at: the walk throws the \<^verbatim>\<open>TypeError\<close> of reading a property of \<^verbatim>\<open>undefined\<close>.
\<close>

definition resumeAt :: "(tsNode \<Rightarrow> jsError + 'r) \<Rightarrow> tsNode option \<Rightarrow> jsError + 'r" where
  "resumeAt walk start = (case start of None \<Rightarrow> Inl TypeError | Some n \<Rightarrow> walk n)"

subsection \<open>The context of a protected access\<close>

text \<open>
  A class qualifies as the context of a protected access when its instance type inherits
  from, or is, every declaring class of the symbol: \<^verbatim>\<open>hasBase\<close> with
  \<^verbatim>\<open>typeContainsDeclaration\<close> holds for each. The context is the nearest qualifying class
  or, when there is none and the member is not static, the type of an explicit
  \<^verbatim>\<open>this\<close> parameter.
\<close>

definition inheritsFromAll :: "tsType \<Rightarrow> tsNode option list \<Rightarrow> bool" where
  "inheritsFromAll t baseClasses =
     (everyE (\<lambda>baseClass. hasBase t baseClass typeContainsDeclaration) baseClasses = Inr True)"

definition qualifyingClass :: "typeChecker \<Rightarrow> tsNode option list \<Rightarrow> tsNode \<Rightarrow> bool" where
  "qualifyingClass checker baseClasses n =
     (isClassLike n \<and>
      (case getInstanceTypeOfClassLikeDeclaration checker n of
         Inl e \<Rightarrow> False
       | Inr t \<Rightarrow> inheritsFromAll t baseClasses))"

definition protectedContext ::
  "modifierFlag set \<Rightarrow> tsType option \<Rightarrow> tsType option \<Rightarrow> tsType option"
where
  "protectedContext flags enclosing fromThis =
     (case enclosing of
        Some c \<Rightarrow> Some c
      | None \<Rightarrow> if Static \<notin> flags then fromThis else None)"

section \<open>Example inputs\<close>

subsection \<open>A small linter\<close>

text \<open>
  A file is \<open>True\<close> while it has something to report and \<open>False\<close> once it is clean. The rule
  \<open>fixable\<close> reports one failure with a fix and one without on a file that is not clean;
  \<open>edge\<close> reports around the range 10..20, which is disabled for it.
\<close>

definition noChange :: textChangeRange where
  "noChange = \<lparr>spanStart = 0, spanLength = 0, newLength = 0\<rparr>"

definition fixableRule :: "(bool, unit, unit, unit) ruleConstructor" where
  "fixableRule =
     \<lparr>requiresTypeInformation = False, supports = None,
      applyRule = (\<lambda>file program opts cfgSettings.
        if file
        then AddFailure 0 1 ''semicolon''
               (SingleReplacement \<lparr>repStart = 0, repEnd = 1, repText = []\<rparr>)
               (AddFailureAt 2 1 ''unused'' NoFix Finished)
        else Finished)\<rparr>"

definition typedRule :: "(bool, unit, unit, unit) ruleConstructor" where
  "typedRule =
     \<lparr>requiresTypeInformation = True, supports = None,
      applyRule = (\<lambda>file program opts cfgSettings. Finished)\<rparr>"

definition pickyRule :: "(bool, unit, unit, unit) ruleConstructor" where
  "pickyRule =
     \<lparr>requiresTypeInformation = False, supports = Some (\<lambda>file opts cfgSettings. False),
      applyRule = (\<lambda>file program opts cfgSettings. Finished)\<rparr>"

definition edgeRule :: "(bool, unit, unit, unit) ruleConstructor" where
  "edgeRule =
     \<lparr>requiresTypeInformation = False, supports = None,
      applyRule = (\<lambda>file program opts cfgSettings.
        AddFailure 10 10 ''at the start'' NoFix
          (AddFailure 12 15 ''inside'' NoFix
             (AddFailure 5 10 ''before'' NoFix Finished)))\<rparr>"

definition exampleEnv :: "(bool, unit, unit, unit) collaborators" where
  "exampleEnv =
     \<lparr>loadRule = (\<lambda>name dirs.
        if name = ''fixable'' then Some fixableRule
        else if name = ''typed'' then Some typedRule
        else if name = ''picky'' then Some pickyRule
        else if name = ''edge'' then Some edgeRule
        else None),
      getDisabledRanges = (\<lambda>names file. [''edge'' \<mapsto> [\<lparr>pos = 10, endPos = 20\<rparr>]]),
      getLineAndCharacterOfPosition = (\<lambda>file p. (0, p)),
      applyFixes = (\<lambda>text fs. \<lparr>result = text @ ''!'', fixed = length fs, fixedRange = noChange\<rparr>),
      calculateChangeRange = (\<lambda>old new. noChange),
      fileText = (\<lambda>file. [])\<rparr>"

definition configure :: "severity \<Rightarrow> string \<Rightarrow> string \<times> unit configuredRule" where
  "configure s name =
     (name, \<lparr>options = (), severity = s, rulesDirectories = None, rule = name\<rparr>)"



definition exampleUpdateFile :: "string \<Rightarrow> textChangeRange \<Rightarrow> bool \<times> unit option" where
  "exampleUpdateFile text change = (False, None)"


definition silencingProcessor :: processor where
  "silencingProcessor =
     \<lparr>updateSource = (\<lambda>text change. (text, None)), postprocess = (\<lambda>fs. [])\<rparr>"

definition edgePrepared :: "(bool, unit, unit, unit) preparedRule" where
  "edgePrepared =
     \<lparr>ctor = edgeRule, preparedOptions = (), ruleName = ''edge'', preparedSeverity = Error\<rparr>"

definition fixableConfig :: "(unit, unit) effectiveConfiguration" where
  "fixableConfig = \<lparr>rules = [configure Error ''fixable''], settings = ()\<rparr>"

definition semicolonFailure :: failure where
  "semicolonFailure =
     \<lparr>failureRuleName = ''fixable'', failureSeverity = Error, message = ''semicolon'',
      failureStart = \<lparr>position = 0, line = 0, character = 0\<rparr>,
      failureEnd = \<lparr>position = 1, line = 0, character = 1\<rparr>,
      failureFix = Some \<lparr>replacements = [\<lparr>repStart = 0, repEnd = 1, repText = []\<rparr>]\<rparr>\<rparr>"

definition unusedFailure :: failure where
  "unusedFailure =
     \<lparr>failureRuleName = ''fixable'', failureSeverity = Error, message = ''unused'',
      failureStart = \<lparr>position = 2, line = 0, character = 2\<rparr>,
      failureEnd = \<lparr>position = 3, line = 0, character = 3\<rparr>,
      failureFix = None\<rparr>"


subsection \<open>A small class hierarchy\<close>

text \<open>
  \<^verbatim>\<open>abstract class A { peek() { this['secret']; this['token']; this['pin'] } private secret;
  protected shared; abstract run(); abstract size;
  constructor(protected token, private pin) { this['size']; this['run'] } }\<close>,
  \<^verbatim>\<open>@dec class B extends A { static helper = @dec class {}; m(@dec p) { this['secret'];
  other['shared']; super['run']; super['secret']; super['token'];
  @dec class Inner { static [name] } } }\<close> and
  \<^verbatim>\<open>function helper(this: A) { this['shared'] }\<close>, as syntax nodes with their positions,
  and the types of \<open>A\<close>, \<open>B\<close> and \<open>Inner\<close>.
\<close>

definition declared :: "syntaxKind \<Rightarrow> int \<Rightarrow> int \<Rightarrow> syntaxKind list option \<Rightarrow> tsNode \<Rightarrow> tsNode" where
  "declared k p e ms par =
     Node \<lparr>pos = p, endPos = e, kind = k, modifiers = ms, parameters = [],
           expression = Identifier\<rparr> (Some par)"

definition access :: "syntaxKind \<Rightarrow> int \<Rightarrow> int \<Rightarrow> tsNode \<Rightarrow> tsNode" where
  "access lhs p e par =
     Node \<lparr>pos = p, endPos = e, kind = ElementAccessExpression, modifiers = None,
           parameters = [], expression = lhs\<rparr> (Some par)"

definition exampleFile :: tsNode where
  "exampleFile =
     Node \<lparr>pos = 0, endPos = 300, kind = SourceFile, modifiers = None, parameters = [],
           expression = Identifier\<rparr> None"

definition classA :: tsNode where
  "classA = declared ClassDeclaration 0 100 (Some [AbstractKeyword]) exampleFile"

definition peekDecl :: tsNode where
  "peekDecl = declared MethodDeclaration 2 9 None classA"

definition peekBody :: tsNode where
  "peekBody = declared Block 4 9 None peekDecl"

definition ownSecret :: tsNode where
  "ownSecret = access ThisKeyword 4 5 peekBody"

definition thisToken :: tsNode where
  "thisToken = access ThisKeyword 5 7 peekBody"

definition thisPin :: tsNode where
  "thisPin = access ThisKeyword 7 9 peekBody"

definition secretDecl :: tsNode where
  "secretDecl = declared PropertyDeclaration 10 20 (Some [PrivateKeyword]) classA"

definition sharedDecl :: tsNode where
  "sharedDecl = declared PropertyDeclaration 20 30 (Some [ProtectedKeyword]) classA"

definition runDecl :: tsNode where
  "runDecl = declared MethodDeclaration 30 40 (Some [AbstractKeyword]) classA"

definition sizeDecl :: tsNode where
  "sizeDecl = declared PropertyDeclaration 40 50 (Some [AbstractKeyword]) classA"

definition ctorA :: tsNode where
  "ctorA = declared Constructor 50 99 None classA"

definition tokenDecl :: tsNode where
  "tokenDecl = declared Parameter 55 60 (Some [ProtectedKeyword]) ctorA"

definition pinDecl :: tsNode where
  "pinDecl = declared Parameter 60 64 (Some [PrivateKeyword]) ctorA"

definition ctorBody :: tsNode where
  "ctorBody = declared Block 65 99 None ctorA"

definition thisSize :: tsNode where
  "thisSize = access ThisKeyword 70 80 ctorBody"

definition thisRun :: tsNode where
  "thisRun = access ThisKeyword 80 90 ctorBody"

definition classB :: tsNode where
  "classB = declared ClassDeclaration 100 200 None exampleFile"

definition topDecorator :: tsNode where
  "topDecorator = declared Decorator 100 104 None classB"

definition staticMember :: tsNode where
  "staticMember = declared PropertyDeclaration 105 109 (Some [StaticKeyword]) classB"

definition memberClass :: tsNode where
  "memberClass = declared ClassExpression 106 109 None staticMember"

definition memberClassDecorator :: tsNode where
  "memberClassDecorator = declared Decorator 106 107 None memberClass"

definition methodM :: tsNode where
  "methodM = declared MethodDeclaration 110 199 None classB"

definition paramOfM :: tsNode where
  "paramOfM = declared Parameter 111 115 None methodM"

definition paramDecorator :: tsNode where
  "paramDecorator = declared Decorator 111 113 None paramOfM"

definition bodyM :: tsNode where
  "bodyM = declared Block 120 199 None methodM"

definition thisSecret :: tsNode where
  "thisSecret = access ThisKeyword 130 140 bodyM"

definition otherShared :: tsNode where
  "otherShared = access Identifier 140 150 bodyM"

definition superRun :: tsNode where
  "superRun = access SuperKeyword 150 160 bodyM"

definition superSecret :: tsNode where
  "superSecret = access SuperKeyword 160 170 bodyM"

definition superToken :: tsNode where
  "superToken = access SuperKeyword 170 180 bodyM"

definition innerClass :: tsNode where
  "innerClass = declared ClassDeclaration 180 198 None bodyM"

definition classDecorator :: tsNode where
  "classDecorator = declared Decorator 180 185 None innerClass"

definition innerMember :: tsNode where
  "innerMember = declared PropertyDeclaration 186 197 (Some [StaticKeyword]) innerClass"

definition computedName :: tsNode where
  "computedName = declared ComputedPropertyName 186 190 None innerMember"

definition helperFunction :: tsNode where
  "helperFunction =
     Node \<lparr>pos = 200, endPos = 300, kind = FunctionDeclaration, modifiers = None,
           parameters = [\<lparr>isThisParameter = True, parameterType = Some 1\<rparr>],
           expression = Identifier\<rparr> (Some exampleFile)"

definition helperBody :: tsNode where
  "helperBody = declared Block 220 300 None helperFunction"

definition helperShared :: tsNode where
  "helperShared = access ThisKeyword 230 240 helperBody"

text \<open>The declared type of a class is a type reference that is its own target.\<close>

definition typeA :: tsType where
  "typeA = TsType 1 False None OwnTarget (Some []) None (Some [classA])"

definition typeB :: tsType where
  "typeB = TsType 2 False None OwnTarget (Some [typeA]) None (Some [classB])"

definition typeInner :: tsType where
  "typeInner = TsType 3 False None OwnTarget (Some []) None (Some [innerClass])"

definition flagOfKeyword :: "syntaxKind \<Rightarrow> modifierFlag set" where
  "flagOfKeyword k =
     (if k = PrivateKeyword then {Private}
      else if k = ProtectedKeyword then {Protected}
      else if k = StaticKeyword then {Static}
      else if k = AbstractKeyword then {Abstract}
      else {})"

definition exampleChecker :: typeChecker where
  "exampleChecker =
     \<lparr>typeToString = (\<lambda>t. if typeId t = 1 then ''A'' else if typeId t = 2 then ''B'' else ''C''),
      getTypeFromTypeNode = (\<lambda>n. typeA),
      getCombinedModifierFlags = (\<lambda>d.
        case modifiers (info d) of
          None \<Rightarrow> {}
        | Some ms \<Rightarrow> foldr (\<lambda>k flags. flagOfKeyword k \<union> flags) ms {}),
      isFunctionScopeBoundary = (\<lambda>n.
        kindOf n = FunctionExpression \<or> kindOf n = ArrowFunction \<or> kindOf n = Constructor \<or>
        kindOf n = ClassDeclaration \<or> kindOf n = ClassExpression \<or>
        kindOf n = EnumDeclaration \<or> kindOf n = MethodDeclaration \<or>
        kindOf n = FunctionDeclaration \<or> kindOf n = GetAccessor \<or> kindOf n = SetAccessor \<or>
        kindOf n = MethodSignature),
      getInstanceTypeOfClassLikeDeclaration = (\<lambda>d.
        if kindOf d = ClassDeclaration \<or> kindOf d = ClassExpression
        then Inr (if pos (info d) = 0 then typeA
                  else if pos (info d) = 100 then typeB
                  else typeInner)
        else Inl TypeError)\<rparr>"

definition secretSymbol :: symbol where
  "secretSymbol = \<lparr>declarations = Some [secretDecl]\<rparr>"

definition sharedSymbol :: symbol where
  "sharedSymbol = \<lparr>declarations = Some [sharedDecl]\<rparr>"

definition runSymbol :: symbol where
  "runSymbol = \<lparr>declarations = Some [runDecl]\<rparr>"

definition sizeSymbol :: symbol where
  "sizeSymbol = \<lparr>declarations = Some [sizeDecl]\<rparr>"

definition tokenSymbol :: symbol where
  "tokenSymbol = \<lparr>declarations = Some [tokenDecl]\<rparr>"

definition pinSymbol :: symbol where
  "pinSymbol = \<lparr>declarations = Some [pinDecl]\<rparr>"

definition undeclaredSymbol :: symbol where
  "undeclaredSymbol = \<lparr>declarations = None\<rparr>"

section \<open>Properties of the linter\<close>

subsection \<open>prepareRules\<close>

lemma prepareRules_body_cases:
  "prepareRules_body env (settings config) sourceFile program st entry =
     (if ruleIncluded env config sourceFile program entry
      then st\<lparr>prepared := prepared st @ [preparedFrom env entry]\<rparr>
      else if ruleLacksTypeInformation env program entry
      then st\<lparr>warned := warned st @ [typeInformationWarning entry]\<rparr>
      else st)"
  by (cases entry)
    (auto simp: prepareRules_body_def ruleIncluded_def ruleLacksTypeInformation_def
      preparedFrom_def typeInformationWarning_def split: option.splits)

lemma included_not_lacking:
  "ruleIncluded env config sourceFile program entry \<Longrightarrow>
   \<not> ruleLacksTypeInformation env program entry"
  by (auto simp: ruleIncluded_def ruleLacksTypeInformation_def split: option.splits)

lemma prepareRules_foldl:
  "foldl (prepareRules_body env (settings config) sourceFile program) st entries =
     st\<lparr>prepared := prepared st @
           map (preparedFrom env) (filter (ruleIncluded env config sourceFile program) entries),
        warned := warned st @
           map typeInformationWarning (filter (ruleLacksTypeInformation env program) entries)\<rparr>"
proof (induction entries arbitrary: st)
  case Nil
  show ?case by simp
next
  case (Cons entry entries)
  let ?B = "prepareRules_body env (settings config) sourceFile program"
  have "foldl ?B st (entry # entries) = foldl ?B (?B st entry) entries"
    by simp
  also have "\<dots> = (?B st entry)\<lparr>prepared := prepared (?B st entry) @
           map (preparedFrom env) (filter (ruleIncluded env config sourceFile program) entries),
        warned := warned (?B st entry) @
           map typeInformationWarning (filter (ruleLacksTypeInformation env program) entries)\<rparr>"
    by (rule Cons.IH)
  also have "\<dots> = st\<lparr>prepared := prepared st @
           map (preparedFrom env)
             (filter (ruleIncluded env config sourceFile program) (entry # entries)),
        warned := warned st @
           map typeInformationWarning
             (filter (ruleLacksTypeInformation env program) (entry # entries))\<rparr>"
    by (simp add: prepareRules_body_cases included_not_lacking)
  finally show ?case .
qed

lemma prepareRules_eq:
  "prepareRules env config sourceFile program =
     \<lparr>prepared =
        map (preparedFrom env) (filter (ruleIncluded env config sourceFile program) (rules config)),
      warned =
        map typeInformationWarning (filter (ruleLacksTypeInformation env program) (rules config))\<rparr>"
  by (simp add: prepareRules_def prepareRules_foldl)



subsection \<open>applyRules and the disabled ranges\<close>

lemma isDisabled_loop_overlaps: "isDisabled_loop rng ds = list_ex (overlaps rng) ds"
  by (induction ds) (auto simp: overlaps_def)

lemma isDisabled_eq:
  assumes "disables st = None \<or> disables st = Some (getDisabledRanges env (map ruleName rs) sourceFile)"
  shows "isDisabled env sourceFile rs name rng st =
           (suppressed env sourceFile rs name rng,
            st\<lparr>disables := Some (getDisabledRanges env (map ruleName rs) sourceFile)\<rparr>)"
  using assms
  by (auto simp: isDisabled_def suppressed_def recordedRanges_def isDisabled_loop_overlaps
      Let_def split: option.splits)


lemma addFailure_eq:
  assumes "memoOk env sourceFile rs st"
  shows "failuresSoFar (addFailure env sourceFile rs current p e msg f st) =
           failuresSoFar st @
           map (failureOfReport env sourceFile current)
             (filter (\<lambda>r. \<not> suppressed env sourceFile rs (ruleName current) (fst r))
                [(\<lparr>pos = p, endPos = e\<rparr>, msg, f)])"
    and "memoOk env sourceFile rs (addFailure env sourceFile rs current p e msg f st)"
  using assms
  by (simp_all add: addFailure_def isDisabled_eq memoOk_def failureOfReport_def)

lemma runRule_eq:
  "memoOk env sourceFile rs st \<Longrightarrow>
   failuresSoFar (runRule env sourceFile rs current run st) =
     failuresSoFar st @
     map (failureOfReport env sourceFile current)
       (filter (\<lambda>r. \<not> suppressed env sourceFile rs (ruleName current) (fst r))
          (reportedCalls (suppressed env sourceFile rs (ruleName current)) sourceFile run)) \<and>
   memoOk env sourceFile rs (runRule env sourceFile rs current run st)"
proof (induction run arbitrary: st)
  case Finished
  then show ?case by simp
next
  case (AddFailure p e msg f k)
  from AddFailure.IH [OF addFailure_eq(2) [OF AddFailure.prems]]
  show ?case
    by (simp add: addFailure_eq(1) [OF AddFailure.prems])
next
  case (AddFailureAt s len msg f k)
  from AddFailureAt.IH [OF addFailure_eq(2) [OF AddFailureAt.prems]]
  show ?case
    by (simp add: addFailure_eq(1) [OF AddFailureAt.prems])
next
  case (AddFailureAtNode n msg f k)
  from AddFailureAtNode.IH [OF addFailure_eq(2) [OF AddFailureAtNode.prems]]
  show ?case
    by (simp add: addFailure_eq(1) [OF AddFailureAtNode.prems])
next
  case (IsDisabled rng k)
  have m: "memoOk env sourceFile rs
             (st\<lparr>disables := Some (getDisabledRanges env (map ruleName rs) sourceFile)\<rparr>)"
    by (simp add: memoOk_def)
  have "k (suppressed env sourceFile rs (ruleName current) rng) \<in> range k"
    by simp
  from IsDisabled.IH [OF this m]
  show ?case
    using IsDisabled.prems by (simp add: isDisabled_eq memoOk_def)
qed

lemma applyRules_foldl:
  "memoOk env sourceFile rs st \<Longrightarrow>
   failuresSoFar
     (foldl (\<lambda>st current.
               runRule env sourceFile rs current
                 (applyRule (ctor current) sourceFile program (preparedOptions current) cfgSettings)
                 st)
        st todo) =
     failuresSoFar st @
     concat (map (\<lambda>current.
                    map (failureOfReport env sourceFile current)
                      (filter (\<lambda>r. \<not> suppressed env sourceFile rs (ruleName current) (fst r))
                         (reportsOfRule env sourceFile program rs cfgSettings current)))
               todo)"
proof (induction todo arbitrary: st)
  case Nil
  show ?case by simp
next
  case (Cons current todo)
  let ?run = "applyRule (ctor current) sourceFile program (preparedOptions current) cfgSettings"
  note step = runRule_eq [OF Cons.prems, of current ?run]
  from Cons.IH [OF conjunct2 [OF step]] conjunct1 [OF step]
  show ?case by (simp add: reportsOfRule_def)
qed

text \<open>
  C2, as amended. The failure list a pass returns is, rule by rule and in the order of
  the reports, the reported failures whose range overlaps no disabled range recorded for
  the name of the reporting rule: a failure is left out exactly when some recorded range
  \<open>d\<close> has \<^verbatim>\<open>end > d.pos\<close> and \<^verbatim>\<open>start < d.end\<close>. A disabled range that shares an endpoint with
  the failure (\<^verbatim>\<open>end == d.pos\<close> or \<^verbatim>\<open>start == d.end\<close>) plays no part in the decision, and a
  failure of non-zero length that lies wholly inside a disabled range is suppressed.
\<close>

theorem applyRules_suppression:
  "applyRules env sourceFile program rs cfgSettings =
     concat (map (\<lambda>current.
                    map (failureOfReport env sourceFile current)
                      (filter (\<lambda>r. \<not> suppressed env sourceFile rs (ruleName current) (fst r))
                         (reportsOfRule env sourceFile program rs cfgSettings current)))
               rs) \<and>
   (endPos rng = pos d \<or> pos rng = endPos d \<longrightarrow>
      isDisabled_loop rng (d # ds) = isDisabled_loop rng ds) \<and>
   (pos rng < endPos rng \<and> d \<in> set ds \<and> pos d \<le> pos rng \<and> endPos rng \<le> endPos d \<longrightarrow>
      isDisabled_loop rng ds)"
proof (intro conjI impI)
  have "memoOk env sourceFile rs \<lparr>failuresSoFar = [], disables = None\<rparr>"
    by (simp add: memoOk_def)
  from applyRules_foldl [OF this]
  show "applyRules env sourceFile program rs cfgSettings =
     concat (map (\<lambda>current.
                    map (failureOfReport env sourceFile current)
                      (filter (\<lambda>r. \<not> suppressed env sourceFile rs (ruleName current) (fst r))
                         (reportsOfRule env sourceFile program rs cfgSettings current)))
               rs)"
    by (simp add: applyRules_def)
next
  assume "endPos rng = pos d \<or> pos rng = endPos d"
  then show "isDisabled_loop rng (d # ds) = isDisabled_loop rng ds"
    by auto
next
  assume "pos rng < endPos rng \<and> d \<in> set ds \<and> pos d \<le> pos rng \<and> endPos rng \<le> endPos d"
  then have "d \<in> set ds" and "overlaps rng d"
    by (auto simp: overlaps_def)
  then show "isDisabled_loop rng ds"
    unfolding isDisabled_loop_overlaps list_ex_iff by blast
qed

lemma edge_suppressed:
  "suppressed exampleEnv file rs ''edge'' rng = (pos rng < 20 \<and> 10 < endPos rng)"
  by (simp add: suppressed_def recordedRanges_def exampleEnv_def overlaps_def)

lemma edgePrepared_sel:
  "ruleName edgePrepared = ''edge''"
  "applyRule (ctor edgePrepared) file program opts cfgSettings =
     AddFailure 10 10 ''at the start'' NoFix
       (AddFailure 12 15 ''inside'' NoFix (AddFailure 5 10 ''before'' NoFix Finished))"
  by (simp_all add: edgePrepared_def edgeRule_def)

lemma exampleEnv_position:
  "makePosition exampleEnv file p = \<lparr>position = p, line = 0, character = p\<rparr>"
  by (simp add: makePosition_def exampleEnv_def)

text \<open>
  The rule \<open>edge\<close> reports at 10..10, 12..15 and 5..10 while 10..20 is disabled for it: the
  second report is suppressed, the other two are returned.
\<close>

theorem applyRules_suppression_witness:
  "map (\<lambda>f. (position (failureStart f), position (failureEnd f)))
     (applyRules exampleEnv True None [edgePrepared] ()) = [(10, 10), (5, 10)] \<and>
   isDisabled_loop \<lparr>pos = 5, endPos = 10\<rparr> [\<lparr>pos = 10, endPos = 20\<rparr>] = False \<and>
   isDisabled_loop \<lparr>pos = 12, endPos = 15\<rparr> [\<lparr>pos = 10, endPos = 20\<rparr>]"
  using applyRules_suppression [of exampleEnv True None "[edgePrepared]" "()"
      "\<lparr>pos = 12, endPos = 15\<rparr>" "\<lparr>pos = 10, endPos = 20\<rparr>" "[\<lparr>pos = 10, endPos = 20\<rparr>]"]
  by (simp add: reportsOfRule_def edge_suppressed edgePrepared_sel
      failureOfReport_def makeFailure_def exampleEnv_position)

text \<open>
  C2 as stated fails for a failure of zero length at the start of a disabled range: it
  lies wholly inside the range 10..20 and is returned all the same.
\<close>

theorem zero_length_failure_at_range_start_is_reported:
  "recordedRanges exampleEnv True [edgePrepared] ''edge'' = [\<lparr>pos = 10, endPos = 20\<rparr>] \<and>
   (10 :: int) \<le> 10 \<and> (10 :: int) \<le> 20 \<and>
   map (\<lambda>f. (failureRuleName f, position (failureStart f), position (failureEnd f)))
     (applyRules exampleEnv True None [edgePrepared] ()) =
     [(''edge'', 10, 10), (''edge'', 5, 10)]"
  by (simp add: applyRules_def edgePrepared_def edgeRule_def addFailure_def isDisabled_def
      makeFailure_def makePosition_def exampleEnv_def recordedRanges_def)

subsection \<open>lintAndFix\<close>









lemma example_prepared:
  "prepareRules exampleEnv fixableConfig file None =
     \<lparr>prepared = [\<lparr>ctor = fixableRule, preparedOptions = (), ruleName = ''fixable'',
                    preparedSeverity = Error\<rparr>],
      warned = []\<rparr>"
  by (simp add: prepareRules_def prepareRules_body_def fixableConfig_def configure_def
      exampleEnv_def fixableRule_def)

lemma example_applyRules:
  "applyRules exampleEnv file None
     [\<lparr>ctor = fixableRule, preparedOptions = (), ruleName = ''fixable'',
       preparedSeverity = Error\<rparr>] () =
     (if file then [semicolonFailure, unusedFailure] else [])"
  by (simp add: applyRules_def fixableRule_def addFailure_def isDisabled_def makeFailure_def
      makePosition_def makeFix_def exampleEnv_def semicolonFailure_def unusedFailure_def)

lemma example_getFailures:
  "getFailures exampleEnv file fixableConfig None proc =
     (if file
      then (case proc of
              None \<Rightarrow> [semicolonFailure, unusedFailure]
            | Some p \<Rightarrow> postprocess p [semicolonFailure, unusedFailure])
      else [], [])"
  by (simp add: getFailures_def example_prepared example_applyRules Let_def
      split: option.splits)












subsection \<open>lintAndFix without iterations\<close>

lemma getFailures_lintFile:
  "getFailures env file config program proc =
     (case proc of
        None \<Rightarrow> fst (lintFile env file config program)
      | Some p \<Rightarrow>
          if fst (lintFile env file config program) = [] then []
          else postprocess p (fst (lintFile env file config program)),
      snd (lintFile env file config program))"
  by (simp add: lintFile_def getFailures_def Let_def split: option.splits)

lemma lintAndFix_loop_zero:
  "lintAndFix_loop env config updateFile proc 0 0 st = st"
  by (simp add: lintAndFix_loop.simps [of env config updateFile proc 0 0 st])

text \<open>
  C9, as amended. With \<^verbatim>\<open>iterations = 0\<close>, \<^verbatim>\<open>lintAndFix\<close> returns the text unchanged and a
  fix count of zero, and logs what \<^verbatim>\<open>lintFile\<close> logs. When no processor is supplied the
  failure list is that of one \<^verbatim>\<open>lintFile\<close> call on the same file, configuration and
  program; when a processor is supplied it is the list \<^verbatim>\<open>postprocess\<close> makes of
  \<^verbatim>\<open>lintFile\<close>'s list, if that list is not empty.
\<close>

theorem lintAndFix_zero_iterations:
  "fst (lintAndFix env file text0 config updateFile (Some 0) program proc) =
     \<lparr>content = text0,
      failures =
        (case proc of
           None \<Rightarrow> fst (lintFile env file config program)
         | Some p \<Rightarrow>
             if fst (lintFile env file config program) = [] then []
             else postprocess p (fst (lintFile env file config program))),
      fixesApplied = 0\<rparr> \<and>
   snd (lintAndFix env file text0 config updateFile (Some 0) program proc) =
     snd (lintFile env file config program)"
  by (simp add: lintAndFix_def lintAndFix_loop_zero Let_def case_prod_beta
      getFailures_lintFile)

theorem lintAndFix_zero_iterations_witness:
  "fst (lintAndFix exampleEnv True ''a;'' fixableConfig exampleUpdateFile (Some 0) None None) =
     \<lparr>content = ''a;'', failures = [semicolonFailure, unusedFailure], fixesApplied = 0\<rparr> \<and>
   fst (lintFile exampleEnv True fixableConfig None) = [semicolonFailure, unusedFailure]"
  using lintAndFix_zero_iterations
    [of exampleEnv True "''a;''" fixableConfig exampleUpdateFile None None]
  by (simp add: lintFile_def example_getFailures)

text \<open>
  C9 as stated fails when a processor is supplied: \<^verbatim>\<open>lintFile\<close> never postprocesses,
  \<^verbatim>\<open>lintAndFix\<close> does.
\<close>

theorem lintAndFix_with_processor_differs_from_lintFile:
  "failures (fst (lintAndFix exampleEnv True ''a;'' fixableConfig exampleUpdateFile (Some 0) None
                    (Some silencingProcessor))) = [] \<and>
   fst (lintFile exampleEnv True fixableConfig None) = [semicolonFailure, unusedFailure]"
  by (simp add: lintAndFix_def lintAndFix_loop_zero lintFile_def example_getFailures
      silencingProcessor_def)

section \<open>Properties of the access check\<close>

subsection \<open>The checks one by one\<close>

lemma flags_nonempty_declarations:
  "f \<in> getModifierFlagsOfSymbol checker symb \<Longrightarrow> \<exists>d ds. declarations symb = Some (d # ds)"
  by (cases "declarations symb"; cases "the (declarations symb)")
     (auto simp: getModifierFlagsOfSymbol_def)

lemma abstractPropertyCheck_other:
  "expression (info node) \<noteq> ThisKeyword \<Longrightarrow>
   abstractPropertyCheck checker symb name node flags = Inr None"
  by (simp add: abstractPropertyCheck_def)

lemma superCheck_other:
  "expression (info node) \<noteq> SuperKeyword \<Longrightarrow>
   superCheck checker symb name node flags = Inr None"
  by (simp add: superCheck_def)

lemma hasNonPrototypeDeclaration_loop_iff:
  "hasNonPrototypeDeclaration_loop ds = list_ex (\<lambda>d. \<not> isPrototypeMember d) ds"
  by (induction ds) (auto simp: isPrototypeMember_def)

text \<open>
  The super check on a symbol that has a declarations list. Take an element access
  through \<^verbatim>\<open>super\<close> to such a symbol that is not static, from a site that
  \<^verbatim>\<open>isStaticSuper\<close> finds outside every static member. If some declaration of the symbol
  is not a member of the prototype, the result is the message that only methods and
  accessors are accessible via \<^verbatim>\<open>super\<close>. If all are, the symbol is abstract and every
  declaration carries the \<^verbatim>\<open>abstract\<close> modifier, the result is the abstract-member
  message, naming the class of the first declaration. Otherwise the super check lets the
  access through: the result is that of the visibility check.
\<close>

lemma super_access_with_declarations:
  assumes viaSuper: "expression (info node) = SuperKeyword"
    and decls: "declarations symb = Some ds"
    and nonStatic: "Static \<notin> getModifierFlagsOfSymbol checker symb"
    and inInstance: "isStaticSuper node = Inr False"
  shows "(list_ex (\<lambda>d. \<not> isPrototypeMember d) ds \<longrightarrow>
            getRestrictedElementAccessError checker symb name node lhsType =
              Inr (Some superPropertyMessage)) \<and>
         (list_all isPrototypeMember ds \<and>
          Abstract \<in> getModifierFlagsOfSymbol checker symb \<and>
          list_all (\<lambda>d. hasModifier (modifiers (info d)) AbstractKeyword) ds \<and>
          parent (hd ds) = Some c \<and>
          getInstanceTypeOfClassLikeDeclaration checker c = Inr t \<longrightarrow>
            getRestrictedElementAccessError checker symb name node lhsType =
              Inr (Some (abstractSuperMessage name (typeToString checker t)))) \<and>
         (list_all isPrototypeMember ds \<and>
          \<not> (Abstract \<in> getModifierFlagsOfSymbol checker symb \<and>
             list_all (\<lambda>d. hasModifier (modifiers (info d)) AbstractKeyword) ds) \<longrightarrow>
            getRestrictedElementAccessError checker symb name node lhsType =
              visibilityCheck checker symb name node lhsType
                (getModifierFlagsOfSymbol checker symb))"
proof -
  let ?flags = "getModifierFlagsOfSymbol checker symb"
  have first: "abstractPropertyCheck checker symb name node ?flags = Inr None"
    using viaSuper by (simp add: abstractPropertyCheck_other)
  have whole: "getRestrictedElementAccessError checker symb name node lhsType =
      bindE (superCheck checker symb name node ?flags) (\<lambda>r2.
        case r2 of Some m \<Rightarrow> Inr (Some m)
        | None \<Rightarrow> visibilityCheck checker symb name node lhsType ?flags)"
    by (simp add: getRestrictedElementAccessError_def first bindE_def Let_def)
  have np: "hasNonPrototypeDeclaration symb = Inr (list_ex (\<lambda>d. \<not> isPrototypeMember d) ds)"
    using decls by (simp add: hasNonPrototypeDeclaration_def hasNonPrototypeDeclaration_loop_iff)
  have all: "list_all isPrototypeMember ds = (\<not> list_ex (\<lambda>d. \<not> isPrototypeMember d) ds)"
    by (simp add: list_all_iff list_ex_iff)
  show ?thesis
  proof (intro conjI impI)
    assume "list_ex (\<lambda>d. \<not> isPrototypeMember d) ds"
    then have "superCheck checker symb name node ?flags = Inr (Some superPropertyMessage)"
      using viaSuper nonStatic inInstance np by (simp add: superCheck_def bindE_def)
    then show "getRestrictedElementAccessError checker symb name node lhsType =
        Inr (Some superPropertyMessage)"
      by (simp add: whole bindE_def)
  next
    assume a: "list_all isPrototypeMember ds \<and> Abstract \<in> ?flags \<and>
      list_all (\<lambda>d. hasModifier (modifiers (info d)) AbstractKeyword) ds \<and>
      parent (hd ds) = Some c \<and> getInstanceTypeOfClassLikeDeclaration checker c = Inr t"
    then obtain d0 rest where ds: "ds = d0 # rest"
      using flags_nonempty_declarations [of Abstract checker symb] decls by auto
    with a have "superCheck checker symb name node ?flags =
        Inr (Some (abstractSuperMessage name (typeToString checker t)))"
      using viaSuper nonStatic inInstance np decls all
      by (simp add: superCheck_def bindE_def printClass_def)
    then show "getRestrictedElementAccessError checker symb name node lhsType =
        Inr (Some (abstractSuperMessage name (typeToString checker t)))"
      by (simp add: whole bindE_def)
  next
    assume a: "list_all isPrototypeMember ds \<and>
      \<not> (Abstract \<in> ?flags \<and>
         list_all (\<lambda>d. hasModifier (modifiers (info d)) AbstractKeyword) ds)"
    then have "superCheck checker symb name node ?flags = Inr None"
      using viaSuper nonStatic inInstance np decls all
      by (auto simp: superCheck_def bindE_def)
    then show "getRestrictedElementAccessError checker symb name node lhsType =
        visibilityCheck checker symb name node lhsType ?flags"
      by (simp add: whole bindE_def)
  qed
qed

subsection \<open>Abstract properties through this\<close>

lemma getEnclosingClass_nearest:
  "getEnclosingClassOfAbstractPropertyAccess checker n = Inr r \<Longrightarrow>
   \<exists>k b. ancestor k n = Some b \<and> isFunctionScopeBoundary checker b \<and>
     (\<forall>j<k. \<forall>a. ancestor j n = Some a \<longrightarrow> \<not> isFunctionScopeBoundary checker a) \<and>
     r = (if kindOf b = ClassDeclaration \<or> kindOf b = ClassExpression then Some b
          else if kindOf b = Constructor then parent b
          else None)"
proof (induction checker n rule: getEnclosingClassOfAbstractPropertyAccess.induct)
  case (1 checker i par)
  show ?case
  proof (cases "isFunctionScopeBoundary checker (Node i par)")
    case True
    with "1.prems" have "r = (if kind i = ClassDeclaration \<or> kind i = ClassExpression
        then Some (Node i par) else if kind i = Constructor then par else None)"
      by (auto split: if_splits)
    with True have "ancestor 0 (Node i par) = Some (Node i par) \<and>
        isFunctionScopeBoundary checker (Node i par) \<and>
        (\<forall>j<0. \<forall>a. ancestor j (Node i par) = Some a \<longrightarrow> \<not> isFunctionScopeBoundary checker a) \<and>
        r = (if kindOf (Node i par) = ClassDeclaration \<or> kindOf (Node i par) = ClassExpression
             then Some (Node i par)
             else if kindOf (Node i par) = Constructor then parent (Node i par) else None)"
      by simp
    then show ?thesis by blast
  next
    case False
    with "1.prems" obtain p where p: "par = Some p"
      and rec: "getEnclosingClassOfAbstractPropertyAccess checker p = Inr r"
      by (cases par) auto
    from "1.IH" [OF False p rec] obtain k b where kb: "ancestor k p = Some b"
      "isFunctionScopeBoundary checker b"
      "\<forall>j<k. \<forall>a. ancestor j p = Some a \<longrightarrow> \<not> isFunctionScopeBoundary checker a"
      "r = (if kindOf b = ClassDeclaration \<or> kindOf b = ClassExpression then Some b
            else if kindOf b = Constructor then parent b else None)"
      by blast
    have "ancestor (Suc k) (Node i par) = Some b"
      using kb(1) p by simp
    moreover have "\<forall>j<Suc k. \<forall>a. ancestor j (Node i par) = Some a \<longrightarrow>
        \<not> isFunctionScopeBoundary checker a"
    proof (intro allI impI)
      fix j a assume j: "j < Suc k" and a: "ancestor j (Node i par) = Some a"
      show "\<not> isFunctionScopeBoundary checker a"
      proof (cases j)
        case 0
        with a False show ?thesis by simp
      next
        case (Suc j')
        with j a p kb(3) show ?thesis by simp
      qed
    qed
    ultimately show ?thesis using kb(2,4) by blast
  qed
qed

text \<open>
  C4, as amended. Take an element access through \<^verbatim>\<open>this\<close> to an abstract symbol. The
  result is the abstract-property message exactly when the symbol has a declaration that
  is not a method, a method signature or an accessor, and the nearest function scope
  boundary around the access is a class (the access stands in a property initialiser)
  or a constructor; the message names that class, by the type the checker gives for it,
  and an error of the checker there is the result. In every other case, among them an
  access inside a method and an access to an abstract method, the check lets the access
  through and the result is that of the visibility check.
\<close>

theorem abstract_property_check:
  assumes viaThis: "expression (info node) = ThisKeyword"
    and abstract: "Abstract \<in> getModifierFlagsOfSymbol checker symb"
    and decls: "declarations symb = Some ds"
    and up: "parent node = Some p"
    and enc: "getEnclosingClassOfAbstractPropertyAccess checker p = Inr enclosing"
  shows "(hasNonPrototypeDeclaration_loop ds \<and> enclosing = Some c \<longrightarrow>
            getRestrictedElementAccessError checker symb name node lhsType =
              (case getInstanceTypeOfClassLikeDeclaration checker c of
                 Inl e \<Rightarrow> Inl e
               | Inr t \<Rightarrow>
                   Inr (Some (abstractInitializationMessage name (typeToString checker t))))) \<and>
         (\<not> hasNonPrototypeDeclaration_loop ds \<or> enclosing = None \<longrightarrow>
            getRestrictedElementAccessError checker symb name node lhsType =
              visibilityCheck checker symb name node lhsType
                (getModifierFlagsOfSymbol checker symb)) \<and>
         (\<exists>k b. ancestor k p = Some b \<and> isFunctionScopeBoundary checker b \<and>
            (\<forall>j<k. \<forall>a. ancestor j p = Some a \<longrightarrow> \<not> isFunctionScopeBoundary checker a) \<and>
            enclosing = (if kindOf b = ClassDeclaration \<or> kindOf b = ClassExpression then Some b
                         else if kindOf b = Constructor then parent b
                         else None))"
proof -
  let ?flags = "getModifierFlagsOfSymbol checker symb"
  have second: "superCheck checker symb name node ?flags = Inr None"
    using viaThis by (simp add: superCheck_other)
  have np: "hasNonPrototypeDeclaration symb = Inr (hasNonPrototypeDeclaration_loop ds)"
    using decls by (simp add: hasNonPrototypeDeclaration_def)
  have first: "abstractPropertyCheck checker symb name node ?flags =
      (if hasNonPrototypeDeclaration_loop ds
       then (case enclosing of
               None \<Rightarrow> Inr None
             | Some c \<Rightarrow>
                 (case getInstanceTypeOfClassLikeDeclaration checker c of
                    Inl e \<Rightarrow> Inl e
                  | Inr t \<Rightarrow>
                      Inr (Some (abstractInitializationMessage name (typeToString checker t)))))
       else Inr None)"
    using viaThis abstract np up enc
    by (simp add: abstractPropertyCheck_def bindE_def printClass_def
        split: option.splits sum.splits)
  show ?thesis
  proof (intro conjI impI)
    assume "hasNonPrototypeDeclaration_loop ds \<and> enclosing = Some c"
    then show "getRestrictedElementAccessError checker symb name node lhsType =
        (case getInstanceTypeOfClassLikeDeclaration checker c of
           Inl e \<Rightarrow> Inl e
         | Inr t \<Rightarrow> Inr (Some (abstractInitializationMessage name (typeToString checker t))))"
      by (simp add: getRestrictedElementAccessError_def first bindE_def Let_def
          split: sum.splits)
  next
    assume "\<not> hasNonPrototypeDeclaration_loop ds \<or> enclosing = None"
    then show "getRestrictedElementAccessError checker symb name node lhsType =
        visibilityCheck checker symb name node lhsType ?flags"
      by (auto simp: getRestrictedElementAccessError_def first second bindE_def Let_def)
  next
    show "\<exists>k b. ancestor k p = Some b \<and> isFunctionScopeBoundary checker b \<and>
            (\<forall>j<k. \<forall>a. ancestor j p = Some a \<longrightarrow> \<not> isFunctionScopeBoundary checker a) \<and>
            enclosing = (if kindOf b = ClassDeclaration \<or> kindOf b = ClassExpression then Some b
                         else if kindOf b = Constructor then parent b
                         else None)"
      by (rule getEnclosingClass_nearest [OF enc])
  qed
qed

subsection \<open>Private members\<close>

lemma after_first_checks:
  assumes "abstractPropertyCheck checker symb name node (getModifierFlagsOfSymbol checker symb) = Inr None"
    and "superCheck checker symb name node (getModifierFlagsOfSymbol checker symb) = Inr None"
  shows "getRestrictedElementAccessError checker symb name node lhsType =
           visibilityCheck checker symb name node lhsType (getModifierFlagsOfSymbol checker symb)"
  using assms by (simp add: getRestrictedElementAccessError_def bindE_def Let_def)


subsection \<open>The levels a walk ascends\<close>

lemma ancestor_chains:
  "Option.bind (parent node) parent = ancestor 2 node"
  "Option.bind (Option.bind (parent node) parent) parent = ancestor 3 node"
  "Option.bind (Option.bind (Option.bind (parent node) parent) parent) parent = ancestor 4 node"
proof -
  show a2: "Option.bind (parent node) parent = ancestor 2 node" for node
    by (simp add: parent_chain_2)
  show a3: "Option.bind (Option.bind (parent node) parent) parent = ancestor 3 node" for node
    by (simp add: parent_chain_2 parent_chain_3)
  have "ancestor 4 node = Option.bind (parent node) (ancestor 3)"
    by (simp add: eval_nat_numeral)
  also have "\<dots> = Option.bind (parent node) (\<lambda>q. Option.bind (Option.bind (parent q) parent) parent)"
    by (simp add: parent_chain_2 parent_chain_3)
  finally show "Option.bind (Option.bind (Option.bind (parent node) parent) parent) parent =
      ancestor 4 node"
    by (cases "parent node") simp_all
qed

text \<open>One round of either walk, with the levels it ascends.\<close>

lemma walk_step_levels:
  "kindOf node = ComputedPropertyName \<or> kindOf node = ExpressionWithTypeArguments \<Longrightarrow>
     isStaticSuper_step node = Ascend (ancestor 3 node) \<and>
     getThisParameterFromContext_step node = Ascend (ancestor 3 node)"
  "kindOf node = Decorator \<Longrightarrow> parent node = Some p \<Longrightarrow> kindOf p = Parameter \<Longrightarrow>
     isStaticSuper_step node = Ascend (ancestor 4 node) \<and>
     getThisParameterFromContext_step node = Ascend (ancestor 4 node)"
  "kindOf node = Decorator \<Longrightarrow> parent node = Some p \<Longrightarrow>
   kindOf p = ClassDeclaration \<or> kindOf p = ClassExpression \<Longrightarrow>
     isStaticSuper_step node = Ascend (ancestor 2 node) \<and>
     getThisParameterFromContext_step node = Ascend (ancestor 2 node)"
  "kindOf node = Decorator \<Longrightarrow> parent node = Some p \<Longrightarrow>
   kindOf p \<noteq> Parameter \<Longrightarrow> kindOf p \<noteq> ClassDeclaration \<Longrightarrow> kindOf p \<noteq> ClassExpression \<Longrightarrow>
     isStaticSuper_step node = Ascend (ancestor 3 node) \<and>
     getThisParameterFromContext_step node = Ascend (ancestor 3 node)"
  unfolding ancestor_chains [symmetric]
  by (auto simp: isStaticSuper_step_def getThisParameterFromContext_step_def)

text \<open>A walk whose round ascends goes on as the walk from the node ascended to.\<close>

lemma walk_resumes:
  "isStaticSuper_step node = Ascend start \<Longrightarrow>
     isStaticSuper node = resumeAt isStaticSuper start"
  "getThisParameterFromContext_step node = Ascend start \<Longrightarrow>
     getThisParameterFromContext node = resumeAt getThisParameterFromContext start"
  by (simp_all add: isStaticSuper.simps [of node] getThisParameterFromContext.simps [of node]
      resumeAt_def split: option.splits)

text \<open>
  C7, as amended. Both walks, \<^verbatim>\<open>isStaticSuper\<close> and \<^verbatim>\<open>getThisParameterFromContext\<close>, go on
  from a computed property name or a heritage clause expression as the walk started at
  its third ancestor does. From a decorator they go on as the walk started at its fourth
  ancestor does when the decorated node is a parameter, at its second ancestor when the
  decorated node is a class declaration or a class expression, and at its third ancestor
  for any other decorator. Where the tree ends below that ancestor, the walk throws.
\<close>

theorem ancestor_walk_levels:
  "(kindOf node = ComputedPropertyName \<or> kindOf node = ExpressionWithTypeArguments \<longrightarrow>
      isStaticSuper node = resumeAt isStaticSuper (ancestor 3 node) \<and>
      getThisParameterFromContext node =
        resumeAt getThisParameterFromContext (ancestor 3 node)) \<and>
   (kindOf node = Decorator \<and> parent node = Some p \<longrightarrow>
      (kindOf p = Parameter \<longrightarrow>
         isStaticSuper node = resumeAt isStaticSuper (ancestor 4 node) \<and>
         getThisParameterFromContext node =
           resumeAt getThisParameterFromContext (ancestor 4 node)) \<and>
      (kindOf p = ClassDeclaration \<or> kindOf p = ClassExpression \<longrightarrow>
         isStaticSuper node = resumeAt isStaticSuper (ancestor 2 node) \<and>
         getThisParameterFromContext node =
           resumeAt getThisParameterFromContext (ancestor 2 node)) \<and>
      (kindOf p \<noteq> Parameter \<and> kindOf p \<noteq> ClassDeclaration \<and> kindOf p \<noteq> ClassExpression \<longrightarrow>
         isStaticSuper node = resumeAt isStaticSuper (ancestor 3 node) \<and>
         getThisParameterFromContext node =
           resumeAt getThisParameterFromContext (ancestor 3 node)))"
proof (intro conjI impI)
  assume k: "kindOf node = ComputedPropertyName \<or> kindOf node = ExpressionWithTypeArguments"
  from walk_step_levels(1) [OF k]
  show "isStaticSuper node = resumeAt isStaticSuper (ancestor 3 node)"
    and "getThisParameterFromContext node =
           resumeAt getThisParameterFromContext (ancestor 3 node)"
    by (simp_all add: walk_resumes)
next
  assume d: "kindOf node = Decorator \<and> parent node = Some p" and k: "kindOf p = Parameter"
  from walk_step_levels(2) [of node p] d k
  show "isStaticSuper node = resumeAt isStaticSuper (ancestor 4 node)"
    and "getThisParameterFromContext node =
           resumeAt getThisParameterFromContext (ancestor 4 node)"
    by (simp_all add: walk_resumes)
next
  assume d: "kindOf node = Decorator \<and> parent node = Some p"
    and k: "kindOf p = ClassDeclaration \<or> kindOf p = ClassExpression"
  from walk_step_levels(3) [of node p] d k
  show "isStaticSuper node = resumeAt isStaticSuper (ancestor 2 node)"
    and "getThisParameterFromContext node =
           resumeAt getThisParameterFromContext (ancestor 2 node)"
    by (simp_all add: walk_resumes)
next
  assume d: "kindOf node = Decorator \<and> parent node = Some p"
    and k: "kindOf p \<noteq> Parameter \<and> kindOf p \<noteq> ClassDeclaration \<and> kindOf p \<noteq> ClassExpression"
  from walk_step_levels(4) [of node p] d k
  show "isStaticSuper node = resumeAt isStaticSuper (ancestor 3 node)"
    and "getThisParameterFromContext node =
           resumeAt getThisParameterFromContext (ancestor 3 node)"
    by (simp_all add: walk_resumes)
qed

subsection \<open>Protected members\<close>

lemma findEnclosingClass_unfold:
  "findEnclosingClass n baseClasses checker =
     (if kindOf n = ClassDeclaration \<or> kindOf n = ClassExpression then
        (case getInstanceTypeOfClassLikeDeclaration checker n of
           Inl e \<Rightarrow> Inl e
         | Inr declaredType \<Rightarrow>
             (case everyE
                     (\<lambda>baseClass. hasBase declaredType baseClass typeContainsDeclaration)
                     baseClasses of
                Inl e \<Rightarrow> Inl e
              | Inr True \<Rightarrow> Inr (Some declaredType)
              | Inr False \<Rightarrow>
                  (case parent n of
                     None \<Rightarrow> Inl TypeError
                   | Some p \<Rightarrow> findEnclosingClass p baseClasses checker)))
      else if kindOf n = SourceFile then Inr None
      else
        (case parent n of
           None \<Rightarrow> Inl TypeError
         | Some p \<Rightarrow> findEnclosingClass p baseClasses checker))"
  by (cases n) (auto split: sum.splits bool.splits)

lemma findEnclosingClass_nearest:
  "findEnclosingClass n baseClasses checker = Inr r \<Longrightarrow>
   \<exists>k a. ancestor k n = Some a \<and>
     (\<forall>j<k. \<forall>b. ancestor j n = Some b \<longrightarrow>
        kindOf b \<noteq> SourceFile \<and> \<not> qualifyingClass checker baseClasses b) \<and>
     (case r of
        Some t \<Rightarrow> qualifyingClass checker baseClasses a \<and>
                  getInstanceTypeOfClassLikeDeclaration checker a = Inr t
      | None \<Rightarrow> kindOf a = SourceFile)"
proof (induction n arbitrary: r)
  case (Node i par)
  let ?n = "Node i par"
  let ?q = "qualifyingClass checker baseClasses"
  have here: "ancestor 0 ?n = Some ?n" by simp
  consider (found) "?q ?n" | (top) "\<not> isClassLike ?n" "kind i = SourceFile"
    | (up) "\<not> ?q ?n" "kind i \<noteq> SourceFile"
    by (auto simp: qualifyingClass_def isClassLike_def)
  then show ?case
  proof cases
    case found
    then obtain t where t: "getInstanceTypeOfClassLikeDeclaration checker ?n = Inr t"
      and all: "inheritsFromAll t baseClasses"
      by (auto simp: qualifyingClass_def split: sum.splits)
    with found Node.prems have "r = Some t"
      by (auto simp: qualifyingClass_def isClassLike_def inheritsFromAll_def)
    with found here t show ?thesis
      by (intro exI [of _ 0] exI [of _ ?n]) simp
  next
    case top
    with Node.prems have "r = None"
      by (auto simp: isClassLike_def)
    with top here show ?thesis
      by (intro exI [of _ 0] exI [of _ ?n]) simp
  next
    case up
    with Node.prems obtain p where p: "par = Some p"
      and rec: "findEnclosingClass p baseClasses checker = Inr r"
      by (cases par)
        (auto simp: qualifyingClass_def isClassLike_def inheritsFromAll_def
          split: if_splits sum.splits bool.splits)
    from Node.IH [of p, OF _ rec] p obtain k a where ka: "ancestor k p = Some a"
      "\<forall>j<k. \<forall>b. ancestor j p = Some b \<longrightarrow> kindOf b \<noteq> SourceFile \<and> \<not> ?q b"
      "case r of Some t \<Rightarrow> ?q a \<and> getInstanceTypeOfClassLikeDeclaration checker a = Inr t
       | None \<Rightarrow> kindOf a = SourceFile"
      by auto
    have "ancestor (Suc k) ?n = Some a"
      using ka(1) p by simp
    moreover have "\<forall>j<Suc k. \<forall>b. ancestor j ?n = Some b \<longrightarrow> kindOf b \<noteq> SourceFile \<and> \<not> ?q b"
    proof (intro allI impI)
      fix j b assume j: "j < Suc k" and b: "ancestor j ?n = Some b"
      show "kindOf b \<noteq> SourceFile \<and> \<not> ?q b"
      proof (cases j)
        case 0
        with b up show ?thesis by auto
      next
        case (Suc j')
        with j b p ka(2) show ?thesis by simp
      qed
    qed
    ultimately show ?thesis using ka(3) by blast
  qed
qed

lemma recur_isIdentical_total:
  "\<exists>b. recur isIdentical c t = Inr b"
  "\<exists>b. recur_rest isIdentical c t = Inr b"
  "\<exists>b. recur_some isIdentical c ts = Inr b"
proof (induction "isIdentical" c t and "isIdentical" c t and "isIdentical" c ts
    rule: recur_recur_rest_recur_some.induct)
  case (1 needle i tp c tg bs ts sd)
  show ?case
  proof (cases tg)
    case NoTarget
    with 1 show ?thesis by (simp del: recur_rest.simps)
  next
    case OwnTarget
    show ?thesis
    proof (cases "i = typeId needle")
      case True
      with OwnTarget show ?thesis by (auto simp: isIdentical_def)
    next
      case False
      with 1 OwnTarget show ?thesis
        by (simp add: isIdentical_def del: recur_rest.simps)
    qed
  next
    case (OtherTarget a)
    show ?thesis
    proof (cases "typeId a = typeId needle")
      case True
      with OtherTarget show ?thesis by (auto simp: isIdentical_def)
    next
      case False
      with 1 OtherTarget show ?thesis
        by (simp add: isIdentical_def del: recur_rest.simps)
    qed
  qed
next
  case (2 needle i tp c tg bs ts sd)
  then show ?case
    by (cases bs; cases ts) (auto split: sum.splits bool.splits)
next
  case (3 needle)
  show ?case by auto
next
  case (4 needle x xs)
  then show ?case
    by (auto split: sum.splits bool.splits)
qed

text \<open>
  The visibility check of a protected member, for an access that the abstract-property
  check and the super check let through, where the walks to the enclosing class and to
  the \<^verbatim>\<open>this\<close> parameter end without an error. The enclosing class found is the instance
  type of the nearest ancestor that is a class whose type inherits from, or is, every
  parent of a declaration of the symbol, and none is found when the walk reaches the
  source file first. With no context the result is the protected-visibility message
  naming the type of the left-hand side. With a context, the result is the message that
  the member is only accessible through an instance of it when the member is not static
  and the type of the left-hand side does not inherit from the context, and the access is
  permitted otherwise.
\<close>

lemma protected_access_after_first_checks:
  assumes prot: "Protected \<in> getModifierFlagsOfSymbol checker symb"
    and notPriv: "Private \<notin> getModifierFlagsOfSymbol checker symb"
    and decls: "declarations symb = Some ds"
    and up: "parent node = Some p"
    and first: "abstractPropertyCheck checker symb name node
                  (getModifierFlagsOfSymbol checker symb) = Inr None"
    and second: "superCheck checker symb name node
                   (getModifierFlagsOfSymbol checker symb) = Inr None"
    and found: "findEnclosingClass p (map parent ds) checker = Inr enclosing"
    and param: "enclosing = None \<and> Static \<notin> getModifierFlagsOfSymbol checker symb \<longrightarrow>
                  getEnclosingClassFromThisParameter (Some p) (map parent ds) checker =
                    Inr fromThis"
  shows "(protectedContext (getModifierFlagsOfSymbol checker symb) enclosing fromThis = None \<longrightarrow>
            getRestrictedElementAccessError checker symb name node lhsType =
              Inr (Some (failVisibility name (typeToString checker lhsType) False))) \<and>
         (protectedContext (getModifierFlagsOfSymbol checker symb) enclosing fromThis = Some c \<longrightarrow>
            getRestrictedElementAccessError checker symb name node lhsType =
              (if Static \<notin> getModifierFlagsOfSymbol checker symb \<and>
                  hasBase lhsType c isIdentical = Inr False
               then Inr (Some (protectedInstanceMessage name (typeToString checker c)))
               else Inr None)) \<and>
         (\<exists>k a. ancestor k p = Some a \<and>
            (\<forall>j<k. \<forall>b. ancestor j p = Some b \<longrightarrow>
               kindOf b \<noteq> SourceFile \<and> \<not> qualifyingClass checker (map parent ds) b) \<and>
            (case enclosing of
               Some t \<Rightarrow> qualifyingClass checker (map parent ds) a \<and>
                         getInstanceTypeOfClassLikeDeclaration checker a = Inr t
             | None \<Rightarrow> kindOf a = SourceFile))"
proof -
  let ?flags = "getModifierFlagsOfSymbol checker symb"
  have nonPublic: "?flags \<inter> NonPublicAccessibilityModifier \<noteq> {}"
    using prot by (auto simp: NonPublicAccessibilityModifier_def)
  have vis: "visibilityCheck checker symb name node lhsType ?flags =
      (case protectedContext ?flags enclosing fromThis of
         None \<Rightarrow> Inr (Some (failVisibility name (typeToString checker lhsType) False))
       | Some c \<Rightarrow>
           if Static \<notin> ?flags then
             bindE (hasBase lhsType c isIdentical) (\<lambda>inherits.
               if \<not> inherits
               then Inr (Some (protectedInstanceMessage name (typeToString checker c)))
               else Inr None)
           else Inr None)"
    using nonPublic notPriv decls up found param
    by (cases enclosing)
      (auto simp: visibilityCheck_def protectedContext_def bindE_def Let_def)
  show ?thesis
  proof (intro conjI impI)
    assume "protectedContext ?flags enclosing fromThis = None"
    then show "getRestrictedElementAccessError checker symb name node lhsType =
        Inr (Some (failVisibility name (typeToString checker lhsType) False))"
      by (simp add: after_first_checks [OF first second] vis)
  next
    assume c: "protectedContext ?flags enclosing fromThis = Some c"
    obtain b where b: "hasBase lhsType c isIdentical = Inr b"
      using recur_isIdentical_total(1) [of c lhsType] by (auto simp: hasBase_def)
    show "getRestrictedElementAccessError checker symb name node lhsType =
        (if Static \<notin> ?flags \<and> hasBase lhsType c isIdentical = Inr False
         then Inr (Some (protectedInstanceMessage name (typeToString checker c)))
         else Inr None)"
      by (simp add: after_first_checks [OF first second] vis c b bindE_def)
  next
    show "\<exists>k a. ancestor k p = Some a \<and>
            (\<forall>j<k. \<forall>b. ancestor j p = Some b \<longrightarrow>
               kindOf b \<noteq> SourceFile \<and> \<not> qualifyingClass checker (map parent ds) b) \<and>
            (case enclosing of
               Some t \<Rightarrow> qualifyingClass checker (map parent ds) a \<and>
                         getInstanceTypeOfClassLikeDeclaration checker a = Inr t
             | None \<Rightarrow> kindOf a = SourceFile)"
      by (rule findEnclosingClass_nearest [OF found])
  qed
qed

subsection \<open>The example hierarchy, evaluated\<close>

lemmas example_nodes =
  declared_def access_def exampleFile_def classA_def peekDecl_def peekBody_def thisToken_def
  thisPin_def ownSecret_def secretDecl_def sharedDecl_def runDecl_def
  sizeDecl_def ctorA_def tokenDecl_def pinDecl_def ctorBody_def thisSize_def thisRun_def
  classB_def
  topDecorator_def staticMember_def memberClass_def memberClassDecorator_def
  methodM_def paramOfM_def paramDecorator_def bodyM_def thisSecret_def otherShared_def
  superRun_def superSecret_def superToken_def innerClass_def classDecorator_def
  innerMember_def computedName_def helperFunction_def helperBody_def helperShared_def

lemma example_flags:
  "getModifierFlagsOfSymbol exampleChecker secretSymbol = {Private}"
  "getModifierFlagsOfSymbol exampleChecker sharedSymbol = {Protected}"
  "getModifierFlagsOfSymbol exampleChecker runSymbol = {Abstract}"
  "getModifierFlagsOfSymbol exampleChecker sizeSymbol = {Abstract}"
  "getModifierFlagsOfSymbol exampleChecker tokenSymbol = {Protected}"
  "getModifierFlagsOfSymbol exampleChecker pinSymbol = {Private}"
  "getModifierFlagsOfSymbol exampleChecker undeclaredSymbol = {}"
  by (simp_all add: getModifierFlagsOfSymbol_def exampleChecker_def flagOfKeyword_def
      secretSymbol_def sharedSymbol_def runSymbol_def sizeSymbol_def tokenSymbol_def
      pinSymbol_def undeclaredSymbol_def example_nodes)

lemma example_isStaticSuper:
  "isStaticSuper bodyM = Inr False"
  "isStaticSuper superRun = Inr False"
  "isStaticSuper superSecret = Inr False"
  "isStaticSuper superToken = Inr False"
  "isStaticSuper innerMember = Inr True"
  "isStaticSuper staticMember = Inr True"
  "isStaticSuper classB = Inl TypeError"
  "isStaticSuper memberClassDecorator = Inr True"
  by (simp_all add: isStaticSuper.simps isStaticSuper_step_def hasModifier_def example_nodes)

lemma example_thisParameterFromContext:
  "getThisParameterFromContext exampleFile = Inr None"
  "getThisParameterFromContext bodyM = Inr None"
  "getThisParameterFromContext peekBody = Inr None"
  "getThisParameterFromContext topDecorator = Inr None"
  "getThisParameterFromContext helperBody =
     Inr (Some \<lparr>isThisParameter = True, parameterType = Some 1\<rparr>)"
  by (simp_all add: getThisParameterFromContext.simps getThisParameterFromContext_step_def
      example_nodes)

lemma example_ancestors:
  "ancestor 3 computedName = Some bodyM"
  "ancestor 4 paramDecorator = Some exampleFile"
  "ancestor 2 memberClassDecorator = Some staticMember"
  "ancestor 3 memberClassDecorator = Some classB"
  "ancestor 2 topDecorator = Some exampleFile"
  "ancestor 3 topDecorator = None"
  "ancestor 3 thisToken = Some classA"
  by (simp_all add: eval_nat_numeral computedName_def innerMember_def innerClass_def
      bodyM_def methodM_def paramDecorator_def paramOfM_def classB_def memberClassDecorator_def
      memberClass_def staticMember_def topDecorator_def exampleFile_def thisToken_def
      peekBody_def peekDecl_def classA_def declared_def access_def)

lemma example_enclosing:
  "getEnclosingClassOfAbstractPropertyAccess exampleChecker ctorBody = Inr (Some classA)"
  "getEnclosingClassOfAbstractPropertyAccess exampleChecker bodyM = Inr None"
  by (simp_all add: exampleChecker_def example_nodes)

lemma example_parents:
  "parent thisSize = Some ctorBody" "parent thisRun = Some ctorBody"
  "parent thisSecret = Some bodyM" "parent otherShared = Some bodyM"
  "parent superRun = Some bodyM" "parent superSecret = Some bodyM"
  "parent superToken = Some bodyM"
  "parent secretDecl = Some classA" "parent sharedDecl = Some classA"
  "parent runDecl = Some classA" "parent sizeDecl = Some classA"
  "parent tokenDecl = Some ctorA" "parent pinDecl = Some ctorA"
  "parent thisToken = Some peekBody" "parent thisPin = Some peekBody"
  "parent ownSecret = Some peekBody"
  "parent helperShared = Some helperBody"
  by (simp_all add: declared_def access_def thisSize_def thisRun_def thisSecret_def ownSecret_def
      otherShared_def superRun_def superSecret_def superToken_def secretDecl_def sharedDecl_def
      runDecl_def sizeDecl_def tokenDecl_def pinDecl_def thisToken_def thisPin_def
      helperShared_def)

lemma example_expressions:
  "expression (info thisSize) = ThisKeyword" "expression (info thisRun) = ThisKeyword"
  "expression (info thisSecret) = ThisKeyword" "expression (info otherShared) = Identifier"
  "expression (info superRun) = SuperKeyword" "expression (info superSecret) = SuperKeyword"
  "expression (info superToken) = SuperKeyword"
  "expression (info thisToken) = ThisKeyword" "expression (info thisPin) = ThisKeyword"
  "expression (info ownSecret) = ThisKeyword"
  "expression (info helperShared) = ThisKeyword"
  by (simp_all add: access_def thisSize_def thisRun_def thisSecret_def ownSecret_def
      otherShared_def superRun_def superSecret_def superToken_def thisToken_def thisPin_def
      helperShared_def)

lemma example_names:
  "typeToString exampleChecker typeA = ''A''"
  "typeToString exampleChecker typeB = ''B''"
  "getTypeFromTypeNode exampleChecker n = typeA"
  "getInstanceTypeOfClassLikeDeclaration exampleChecker classA = Inr typeA"
  "getInstanceTypeOfClassLikeDeclaration exampleChecker classB = Inr typeB"
  "getInstanceTypeOfClassLikeDeclaration exampleChecker ctorA = Inl TypeError"
  by (simp_all add: exampleChecker_def typeA_def typeB_def classA_def classB_def ctorA_def
      declared_def)

lemma example_hasBase:
  "hasBase typeB (Some classA) typeContainsDeclaration = Inr True"
  "hasBase typeB (Some ctorA) typeContainsDeclaration = Inr False"
  "hasBase typeA (Some classA) typeContainsDeclaration = Inr True"
  "hasBase typeA (Some ctorA) typeContainsDeclaration = Inr False"
  "hasBase typeA typeB isIdentical = Inr False"
  "hasBase typeA typeA isIdentical = Inr True"
  by (simp_all add: hasBase_def typeA_def typeB_def typeContainsDeclaration_def isIdentical_def
      example_nodes)

lemma example_kinds:
  "kindOf bodyM = Block" "kindOf methodM = MethodDeclaration"
  "kindOf classB = ClassDeclaration" "kindOf exampleFile = SourceFile"
  "kindOf peekBody = Block" "kindOf peekDecl = MethodDeclaration"
  "kindOf classA = ClassDeclaration"
  "kindOf helperBody = Block" "kindOf helperFunction = FunctionDeclaration"
  "parent bodyM = Some methodM" "parent methodM = Some classB"
  "parent classB = Some exampleFile"
  "parent peekBody = Some peekDecl" "parent peekDecl = Some classA"
  "parent classA = Some exampleFile"
  "parent helperBody = Some helperFunction" "parent helperFunction = Some exampleFile"
  by (simp_all add: bodyM_def methodM_def classB_def exampleFile_def peekBody_def peekDecl_def
      classA_def helperBody_def helperFunction_def declared_def)

lemma example_findEnclosingClass:
  "findEnclosingClass bodyM [Some classA] exampleChecker = Inr (Some typeB)"
  "findEnclosingClass bodyM [Some ctorA] exampleChecker = Inr None"
  "findEnclosingClass peekBody [Some ctorA] exampleChecker = Inr None"
  "findEnclosingClass peekBody [Some classA] exampleChecker = Inr (Some typeA)"
  "findEnclosingClass helperBody [Some classA] exampleChecker = Inr None"
proof -
  have f: "findEnclosingClass exampleFile bs exampleChecker = Inr None" for bs
    by (subst findEnclosingClass_unfold) (simp add: example_kinds)
  have b1: "findEnclosingClass classB [Some classA] exampleChecker = Inr (Some typeB)"
    by (subst findEnclosingClass_unfold) (simp add: example_kinds example_names example_hasBase)
  have b2: "findEnclosingClass classB [Some ctorA] exampleChecker = Inr None"
    by (subst findEnclosingClass_unfold)
      (simp add: example_kinds example_names example_hasBase f)
  have a1: "findEnclosingClass classA [Some classA] exampleChecker = Inr (Some typeA)"
    by (subst findEnclosingClass_unfold) (simp add: example_kinds example_names example_hasBase)
  have a2: "findEnclosingClass classA [Some ctorA] exampleChecker = Inr None"
    by (subst findEnclosingClass_unfold)
      (simp add: example_kinds example_names example_hasBase f)
  have m: "findEnclosingClass methodM bs exampleChecker =
      findEnclosingClass classB bs exampleChecker" for bs
    by (subst findEnclosingClass_unfold) (simp add: example_kinds)
  have b: "findEnclosingClass bodyM bs exampleChecker =
      findEnclosingClass methodM bs exampleChecker" for bs
    by (subst findEnclosingClass_unfold) (simp add: example_kinds)
  have pd: "findEnclosingClass peekDecl bs exampleChecker =
      findEnclosingClass classA bs exampleChecker" for bs
    by (subst findEnclosingClass_unfold) (simp add: example_kinds)
  have pb: "findEnclosingClass peekBody bs exampleChecker =
      findEnclosingClass peekDecl bs exampleChecker" for bs
    by (subst findEnclosingClass_unfold) (simp add: example_kinds)
  have hf: "findEnclosingClass helperFunction bs exampleChecker = Inr None" for bs
    by (subst findEnclosingClass_unfold) (simp add: example_kinds f)
  show "findEnclosingClass bodyM [Some classA] exampleChecker = Inr (Some typeB)"
    by (simp add: b m b1)
  show "findEnclosingClass bodyM [Some ctorA] exampleChecker = Inr None"
    by (simp add: b m b2)
  show "findEnclosingClass peekBody [Some ctorA] exampleChecker = Inr None"
    by (simp add: pb pd a2)
  show "findEnclosingClass peekBody [Some classA] exampleChecker = Inr (Some typeA)"
    by (simp add: pb pd a1)
  show "findEnclosingClass helperBody [Some classA] exampleChecker = Inr None"
    by (subst findEnclosingClass_unfold) (simp add: example_kinds hf)
qed

lemma example_isTypeReference:
  "isTypeParameter typeA = False" "target typeA = Some typeA"
  by (simp_all add: typeA_def target_def)

lemma example_thisParameter:
  "getEnclosingClassFromThisParameter (Some bodyM) bs exampleChecker = Inr None"
  "getEnclosingClassFromThisParameter (Some peekBody) bs exampleChecker = Inr None"
  "getEnclosingClassFromThisParameter (Some helperBody) [Some classA] exampleChecker =
     Inr (Some typeA)"
  by (simp_all add: getEnclosingClassFromThisParameter_def example_thisParameterFromContext
      bindE_def example_names example_isTypeReference example_hasBase)

lemma example_decl_kinds:
  "kindOf secretDecl = PropertyDeclaration" "kindOf sharedDecl = PropertyDeclaration"
  "kindOf runDecl = MethodDeclaration" "kindOf sizeDecl = PropertyDeclaration"
  "kindOf tokenDecl = Parameter" "kindOf pinDecl = Parameter" "kindOf ctorA = Constructor"
  by (simp_all add: secretDecl_def sharedDecl_def sizeDecl_def tokenDecl_def pinDecl_def
      runDecl_def ctorA_def declared_def)

lemma example_positions:
  "pos (info classA) = 0" "endPos (info classA) = 100"
  "pos (info thisSecret) = 130" "endPos (info thisSecret) = 140"
  "pos (info superSecret) = 160" "endPos (info superSecret) = 170"
  "pos (info thisPin) = 7" "endPos (info thisPin) = 9"
  "pos (info ownSecret) = 4" "endPos (info ownSecret) = 5"
  "pos (info ctorA) = 50" "endPos (info ctorA) = 99"
  by (simp_all add: classA_def thisSecret_def superSecret_def thisPin_def ownSecret_def
      ctorA_def declared_def access_def)

lemma example_declarations:
  "hasNonPrototypeDeclaration_loop [secretDecl]"
  "hasNonPrototypeDeclaration_loop [sizeDecl]"
  "hasNonPrototypeDeclaration_loop [tokenDecl]"
  "\<not> hasNonPrototypeDeclaration_loop [runDecl]"
  "hasModifier (modifiers (info runDecl)) AbstractKeyword"
  by (simp_all add: secretDecl_def sizeDecl_def tokenDecl_def runDecl_def declared_def
      hasModifier_def)

lemma example_symbols:
  "declarations secretSymbol = Some [secretDecl]"
  "declarations sharedSymbol = Some [sharedDecl]"
  "declarations runSymbol = Some [runDecl]"
  "declarations sizeSymbol = Some [sizeDecl]"
  "declarations tokenSymbol = Some [tokenDecl]"
  "declarations pinSymbol = Some [pinDecl]"
  "declarations undeclaredSymbol = None"
  by (simp_all add: secretSymbol_def sharedSymbol_def runSymbol_def sizeSymbol_def
      tokenSymbol_def pinSymbol_def undeclaredSymbol_def)

lemma example_nonPrototype:
  "hasNonPrototypeDeclaration secretSymbol = Inr True"
  "hasNonPrototypeDeclaration sizeSymbol = Inr True"
  "hasNonPrototypeDeclaration tokenSymbol = Inr True"
  "hasNonPrototypeDeclaration runSymbol = Inr False"
  "hasNonPrototypeDeclaration undeclaredSymbol = Inl TypeError"
  by (simp_all add: hasNonPrototypeDeclaration_def example_symbols example_decl_kinds)

lemma example_constructor:
  "parent ctorBody = Some ctorA" "kindOf ctorA = Constructor" "parent ctorA = Some classA"
  by (simp_all add: ctorBody_def ctorA_def declared_def)

lemma example_first_checks:
  "abstractPropertyCheck exampleChecker secretSymbol name thisSecret {Private} = Inr None"
  "superCheck exampleChecker secretSymbol name thisSecret {Private} = Inr None"
  "abstractPropertyCheck exampleChecker secretSymbol name ownSecret {Private} = Inr None"
  "superCheck exampleChecker secretSymbol name ownSecret {Private} = Inr None"
  "abstractPropertyCheck exampleChecker sharedSymbol name otherShared {Protected} = Inr None"
  "superCheck exampleChecker sharedSymbol name otherShared {Protected} = Inr None"
  "abstractPropertyCheck exampleChecker sharedSymbol name helperShared {Protected} = Inr None"
  "superCheck exampleChecker sharedSymbol name helperShared {Protected} = Inr None"
  "abstractPropertyCheck exampleChecker tokenSymbol name thisToken {Protected} = Inr None"
  "superCheck exampleChecker tokenSymbol name thisToken {Protected} = Inr None"
  "abstractPropertyCheck exampleChecker pinSymbol name thisPin {Private} = Inr None"
  "superCheck exampleChecker pinSymbol name thisPin {Private} = Inr None"
  by (simp_all add: abstractPropertyCheck_def superCheck_def example_expressions)

subsection \<open>The checks on the example hierarchy\<close>

text \<open>
  \<^verbatim>\<open>super['run']\<close> in a method of \<open>B\<close>, where \<open>run\<close> is an abstract method of \<open>A\<close>: the
  abstract-member message.
\<close>

lemma example_super_run:
  "getRestrictedElementAccessError exampleChecker runSymbol ''run'' superRun typeA =
     Inr (Some (abstractSuperMessage ''run'' ''A''))"
  using super_access_with_declarations [where node = superRun and symb = runSymbol
      and ds = "[runDecl]" and checker = exampleChecker and c = classA and t = typeA
      and name = "''run''" and lhsType = typeA]
  by (simp add: example_expressions example_flags example_isStaticSuper example_declarations
      example_decl_kinds example_parents example_names example_symbols isPrototypeMember_def)

text \<open>
  C3. The claim has the super check permit every access that is neither to a symbol with
  a declaration outside the prototype nor to an abstract symbol. A symbol without a
  declarations list is neither: it has no flags and no declaration. For
  \<^verbatim>\<open>super['secret']\<close> in a method of \<open>B\<close> that is not static, the guard of the super check
  holds for such a symbol, \<^verbatim>\<open>hasNonPrototypeDeclaration\<close> iterates the missing list and the
  check throws, where the visibility check would have permitted the access. With a
  declarations list the check does what the claim says, as shown above.
\<close>

theorem super_check_throws_without_declarations:
  "expression (info superSecret) = SuperKeyword \<and>
   declarations undeclaredSymbol = None \<and>
   getModifierFlagsOfSymbol exampleChecker undeclaredSymbol = {} \<and>
   isStaticSuper superSecret = Inr False \<and>
   superCheck exampleChecker undeclaredSymbol ''secret'' superSecret {} = Inl TypeError \<and>
   visibilityCheck exampleChecker undeclaredSymbol ''secret'' superSecret typeB {} = Inr None \<and>
   getRestrictedElementAccessError exampleChecker undeclaredSymbol ''secret'' superSecret typeB =
     Inl TypeError"
  by (simp add: example_flags example_expressions example_isStaticSuper example_symbols
      example_nonPrototype getRestrictedElementAccessError_def abstractPropertyCheck_def
      superCheck_def visibilityCheck_def bindE_def)

text \<open>
  \<^verbatim>\<open>this['size']\<close> in the constructor of \<open>A\<close>, where \<open>size\<close> is an abstract property.
\<close>

theorem abstract_property_check_witness:
  "expression (info thisSize) = ThisKeyword \<and>
   Abstract \<in> getModifierFlagsOfSymbol exampleChecker sizeSymbol \<and>
   getEnclosingClassOfAbstractPropertyAccess exampleChecker ctorBody = Inr (Some classA) \<and>
   getRestrictedElementAccessError exampleChecker sizeSymbol ''size'' thisSize typeA =
     Inr (Some (abstractInitializationMessage ''size'' ''A''))"
  using abstract_property_check [where node = thisSize and checker = exampleChecker
      and symb = sizeSymbol and ds = "[sizeDecl]" and p = ctorBody and enclosing = "Some classA"
      and c = classA and name = "''size''" and lhsType = typeA]
  by (simp add: example_expressions example_flags example_enclosing example_declarations
      example_decl_kinds example_parents example_names example_symbols)

text \<open>
  C4 as stated fails in both directions. \<^verbatim>\<open>this['run']\<close> stands in the constructor of the
  declaring class \<open>A\<close> and the abstract member \<open>run\<close> has no declaration other than a
  method, yet no message is returned; \<^verbatim>\<open>this['size']\<close> stands beside it, \<open>size\<close> has a
  declaration that is not a method or accessor, and the message is returned.
\<close>

theorem abstract_method_in_constructor_not_flagged:
  "expression (info thisRun) = ThisKeyword \<and>
   Abstract \<in> getModifierFlagsOfSymbol exampleChecker runSymbol \<and>
   hasNonPrototypeDeclaration runSymbol = Inr False \<and>
   parent runDecl = Some classA \<and>
   parent thisRun = Some ctorBody \<and> parent ctorBody = Some ctorA \<and>
   kindOf ctorA = Constructor \<and> parent ctorA = Some classA \<and>
   getRestrictedElementAccessError exampleChecker runSymbol ''run'' thisRun typeA = Inr None \<and>
   expression (info thisSize) = ThisKeyword \<and>
   Abstract \<in> getModifierFlagsOfSymbol exampleChecker sizeSymbol \<and>
   hasNonPrototypeDeclaration sizeSymbol = Inr True \<and>
   getRestrictedElementAccessError exampleChecker sizeSymbol ''size'' thisSize typeA =
     Inr (Some (abstractInitializationMessage ''size'' ''A''))"
  by (simp add: example_expressions example_flags example_enclosing example_nonPrototype
      example_parents example_names getRestrictedElementAccessError_def
      abstractPropertyCheck_def superCheck_def visibilityCheck_def bindE_def printClass_def
      NonPublicAccessibilityModifier_def example_constructor)



text \<open>
  The private parameter property \<open>pin\<close> of \<open>A\<close>, read as \<^verbatim>\<open>this['pin']\<close> in the method
  \<open>peek\<close> of \<open>A\<close>: the parent of the declaration is the constructor, the access lies outside
  its span, and \<^verbatim>\<open>printClass\<close> throws on the constructor.
\<close>

lemma example_private_parameter_property:
  "parent pinDecl = Some ctorA \<and> \<not> isClassLike ctorA \<and>
   pos (info thisPin) < pos (info ctorA) \<and>
   getRestrictedElementAccessError exampleChecker pinSymbol ''pin'' thisPin typeA =
     Inl TypeError"
  by (simp add: example_parents example_decl_kinds isClassLike_def example_positions
      example_flags example_first_checks example_symbols example_names
      getRestrictedElementAccessError_def visibilityCheck_def printClass_def bindE_def
      NonPublicAccessibilityModifier_def)

text \<open>
  \<^verbatim>\<open>other['shared']\<close> in a method of \<open>B\<close>, where \<open>other\<close> has type \<open>A\<close>: the context is \<open>B\<close>,
  from which \<open>A\<close> does not inherit.
\<close>

lemma example_other_shared:
  "getRestrictedElementAccessError exampleChecker sharedSymbol ''shared'' otherShared typeA =
     Inr (Some (protectedInstanceMessage ''shared'' ''B''))"
  using protected_access_after_first_checks [where checker = exampleChecker
      and symb = sharedSymbol
      and ds = "[sharedDecl]" and node = otherShared and p = bodyM and name = "''shared''"
      and enclosing = "Some typeB" and fromThis = None and c = typeB and lhsType = typeA]
  by (simp add: example_flags example_parents example_first_checks example_names
      example_findEnclosingClass example_thisParameter example_hasBase example_symbols
      protectedContext_def)

text \<open>
  \<^verbatim>\<open>this['shared']\<close> in \<^verbatim>\<open>function helper(this: A)\<close>: no class encloses the access, the
  context is the type of the \<^verbatim>\<open>this\<close> parameter, and the access is permitted.
\<close>

lemma example_helper_shared:
  "findEnclosingClass helperBody [Some classA] exampleChecker = Inr None \<and>
   getEnclosingClassFromThisParameter (Some helperBody) [Some classA] exampleChecker =
     Inr (Some typeA) \<and>
   getRestrictedElementAccessError exampleChecker sharedSymbol ''shared'' helperShared typeA =
     Inr None"
  using protected_access_after_first_checks [where checker = exampleChecker
      and symb = sharedSymbol
      and ds = "[sharedDecl]" and node = helperShared and p = helperBody
      and name = "''shared''" and enclosing = None and fromThis = "Some typeA" and c = typeA
      and lhsType = typeA]
  by (simp add: example_flags example_parents example_first_checks example_names
      example_findEnclosingClass example_thisParameter example_hasBase example_symbols
      protectedContext_def)

text \<open>
  C5. \<open>token\<close> is a protected parameter property of \<open>A\<close>: its declaration is the parameter,
  whose parent is the constructor, and the class that declares it is \<open>A\<close>. The access
  \<^verbatim>\<open>this['token']\<close> stands in the method \<open>peek\<close> of \<open>A\<close>, three levels below the class, and
  the type of the left-hand side is \<open>A\<close>. The type of the enclosing class \<open>A\<close> is the
  declaring class, so the claim has \<open>A\<close> as the context and no message. The code takes
  the constructor for the declaring class, finds no class that inherits from it, and
  returns the protected-visibility message.
\<close>

theorem protected_parameter_property_refused_in_declaring_class:
  "declarations tokenSymbol = Some [tokenDecl] \<and>
   kindOf tokenDecl = Parameter \<and>
   parent tokenDecl = Some ctorA \<and> kindOf ctorA = Constructor \<and>
   parent ctorA = Some classA \<and>
   getModifierFlagsOfSymbol exampleChecker tokenSymbol = {Protected} \<and>
   expression (info thisToken) = ThisKeyword \<and>
   ancestor 3 thisToken = Some classA \<and>
   getInstanceTypeOfClassLikeDeclaration exampleChecker classA = Inr typeA \<and>
   hasBase typeA (Some classA) typeContainsDeclaration = Inr True \<and>
   hasBase typeA typeA isIdentical = Inr True \<and>
   findEnclosingClass peekBody [Some classA] exampleChecker = Inr (Some typeA) \<and>
   findEnclosingClass peekBody (map parent [tokenDecl]) exampleChecker = Inr None \<and>
   getRestrictedElementAccessError exampleChecker tokenSymbol ''token'' thisToken typeA =
     Inr (Some (failVisibility ''token'' ''A'' False))"
  by (simp add: example_symbols example_decl_kinds example_parents example_constructor
      example_flags example_expressions example_ancestors example_names example_hasBase
      example_findEnclosingClass example_thisParameter example_first_checks
      getRestrictedElementAccessError_def visibilityCheck_def bindE_def
      NonPublicAccessibilityModifier_def)

lemma example_walk_nodes:
  "kindOf computedName = ComputedPropertyName"
  "kindOf paramDecorator = Decorator" "parent paramDecorator = Some paramOfM"
  "kindOf paramOfM = Parameter"
  "kindOf memberClassDecorator = Decorator" "parent memberClassDecorator = Some memberClass"
  "kindOf memberClass = ClassExpression"
  "kindOf topDecorator = Decorator" "parent topDecorator = Some classB"
  by (simp_all add: computedName_def paramDecorator_def paramOfM_def memberClassDecorator_def
      memberClass_def topDecorator_def declared_def)

text \<open>
  The computed name of a static member of \<open>Inner\<close>: the walk leaves the member out and
  goes on from the body of the method \<open>m\<close>, which is not static. The decorator of the
  parameter of \<open>m\<close>: the walk goes on from the source file.
\<close>

theorem ancestor_walk_levels_witness:
  "kindOf computedName = ComputedPropertyName \<and>
   isStaticSuper innerMember = Inr True \<and>
   ancestor 3 computedName = Some bodyM \<and>
   isStaticSuper bodyM = Inr False \<and>
   isStaticSuper computedName = Inr False \<and>
   kindOf paramDecorator = Decorator \<and> parent paramDecorator = Some paramOfM \<and>
   kindOf paramOfM = Parameter \<and>
   ancestor 4 paramDecorator = Some exampleFile \<and>
   getThisParameterFromContext paramDecorator = Inr None"
  using ancestor_walk_levels [where node = computedName and p = innerMember]
    ancestor_walk_levels [where node = paramDecorator and p = paramOfM]
  by (simp add: example_ancestors example_isStaticSuper example_thisParameterFromContext
      resumeAt_def example_walk_nodes)

text \<open>
  C7 as stated fails for the decorator of a class: the walk resumes at the second
  ancestor, not at the third. For the decorated class expression that initialises the
  static member \<open>helper\<close> of \<open>B\<close>, \<^verbatim>\<open>isStaticSuper\<close> goes on from the member and answers
  \<open>True\<close>, where the walk from the third ancestor, the class \<open>B\<close>, ends in an error. For the
  decorator of \<open>B\<close>, \<^verbatim>\<open>getThisParameterFromContext\<close> goes on from the source file and
  returns \<^verbatim>\<open>undefined\<close>, and there is no third ancestor to resume at.
\<close>

theorem class_decorator_ascends_two_levels:
  "kindOf memberClassDecorator = Decorator \<and>
   parent memberClassDecorator = Some memberClass \<and>
   kindOf memberClass = ClassExpression \<and>
   ancestor 2 memberClassDecorator = Some staticMember \<and>
   ancestor 3 memberClassDecorator = Some classB \<and>
   isStaticSuper memberClassDecorator = Inr True \<and>
   resumeAt isStaticSuper (ancestor 2 memberClassDecorator) = Inr True \<and>
   resumeAt isStaticSuper (ancestor 3 memberClassDecorator) = Inl TypeError \<and>
   kindOf topDecorator = Decorator \<and>
   parent topDecorator = Some classB \<and>
   kindOf classB = ClassDeclaration \<and>
   ancestor 2 topDecorator = Some exampleFile \<and>
   ancestor 3 topDecorator = None \<and>
   getThisParameterFromContext topDecorator = Inr None \<and>
   resumeAt getThisParameterFromContext (ancestor 2 topDecorator) = Inr None \<and>
   resumeAt getThisParameterFromContext (ancestor 3 topDecorator) = Inl TypeError"
  by (simp add: example_ancestors example_isStaticSuper example_thisParameterFromContext
      resumeAt_def example_walk_nodes example_kinds)

lemma undeclared_symbol_outside_super:
  assumes "declarations symb = None"
    and "expression (info node) \<noteq> SuperKeyword \<or> isStaticSuper node = Inr True"
  shows "getRestrictedElementAccessError checker symb name node lhsType = Inr None"
  using assms
  by (auto simp: getRestrictedElementAccessError_def getModifierFlagsOfSymbol_def
      abstractPropertyCheck_def superCheck_def visibilityCheck_def bindE_def)

text \<open>
  C10. For a symbol without a declarations list the flags are \<^verbatim>\<open>None\<close>. The guard of the
  super check, \<^verbatim>\<open>(flags & Static) === 0\<close>, holds for these flags: for an access through
  \<^verbatim>\<open>super\<close> in a member that is not static, \<^verbatim>\<open>hasNonPrototypeDeclaration\<close> iterates the
  missing list and throws, where the claim has the function return \<^verbatim>\<open>undefined\<close>. Every
  other access to such a symbol is permitted, as the lemma above shows.
\<close>

theorem super_access_without_declarations_throws:
  "declarations undeclaredSymbol = None \<and>
   getModifierFlagsOfSymbol exampleChecker undeclaredSymbol = {} \<and>
   expression (info superRun) = SuperKeyword \<and>
   isStaticSuper superRun = Inr False \<and>
   getRestrictedElementAccessError exampleChecker undeclaredSymbol ''run'' superRun typeA =
     Inl TypeError"
  by (simp add: example_flags example_expressions example_isStaticSuper example_symbols
      example_nonPrototype getRestrictedElementAccessError_def abstractPropertyCheck_def
      superCheck_def bindE_def)

end
